theory Spec2Isabelle
  imports Complex_Main "HOL-Library.AList" "HOL-Library.Sublist"
begin

section \<open>Values of the Python program\<close>

text \<open>
  The three modules (\<^verbatim>\<open>cbdb_addr.py\<close>, \<^verbatim>\<open>cbdb_addr_person.py\<close>, \<^verbatim>\<open>chgis.py\<close>) exchange
  JSON-compatible Python values with two remote services.

  A Python \<^verbatim>\<open>str\<close> is modelled as a \<^typ>\<open>string\<close> holding its UTF-8 bytes; \<^verbatim>\<open>startswith\<close>,
  concatenation and substring tests agree on bytes and on code points, while \<^verbatim>\<open>len\<close>,
  slicing and JSON escaping go through the code points (\<open>code_points\<close> below).
  A Python \<^verbatim>\<open>int\<close> is an \<^typ>\<open>int\<close>. A \<^verbatim>\<open>float\<close> is kept as its \<^verbatim>\<open>repr\<close> text. A \<^verbatim>\<open>dict\<close> is an
  association list in insertion order: \<open>map_of\<close> reads a key and \<open>AList.update\<close> is the
  assignment \<^verbatim>\<open>d[k] = v\<close> (the value is replaced in place, a new key goes to the end).
\<close>

datatype json =
    JNull
  | JBool bool
  | JInt int
  | JFloat string
  | JStr string
  | JList "json list"
  | JObj "(string \<times> json) list"

text \<open>
  Exceptions, as far as the handlers of the tools tell them apart. Every constructor is a
  subclass of Python's \<^verbatim>\<open>Exception\<close>; the string is \<^verbatim>\<open>str(exc)\<close>. \<open>HTTPStatusError\<close> also
  carries \<^verbatim>\<open>exc.response.status_code\<close>. In httpx, \<^verbatim>\<open>HTTPStatusError\<close> is not a subclass of
  \<^verbatim>\<open>RequestError\<close>, and \<^verbatim>\<open>json.JSONDecodeError\<close> is a subclass of \<^verbatim>\<open>ValueError\<close>.
  Cancellation of the call and interpreter exit derive from \<^verbatim>\<open>BaseException\<close> only, belong to
  the hosting runtime and are not part of this model. The messages of the exceptions the
  interpreter raises (\<^verbatim>\<open>TypeError\<close>, \<^verbatim>\<open>KeyError\<close>, \<^verbatim>\<open>ZeroDivisionError\<close>) follow CPython 3.11;
  their wording differs between versions and no statement below depends on it.
\<close>

datatype exn =
    RequestError string
  | HTTPStatusError int string
  | ValueError string
  | TypeError string
  | KeyError string
  | ZeroDivisionError string
  | OtherException string

fun str_exn :: "exn \<Rightarrow> string" where
  "str_exn (RequestError m) = m"
| "str_exn (HTTPStatusError c m) = m"
| "str_exn (ValueError m) = m"
| "str_exn (TypeError m) = m"
| "str_exn (KeyError m) = m"
| "str_exn (ZeroDivisionError m) = m"
| "str_exn (OtherException m) = m"

fun is_RequestError :: "exn \<Rightarrow> bool" where
  "is_RequestError (RequestError m) = True"
| "is_RequestError e = False"

fun is_HTTPStatusError :: "exn \<Rightarrow> bool" where
  "is_HTTPStatusError (HTTPStatusError c m) = True"
| "is_HTTPStatusError e = False"

fun is_ValueError :: "exn \<Rightarrow> bool" where
  "is_ValueError (ValueError m) = True"
| "is_ValueError e = False"

fun is_Exception :: "exn \<Rightarrow> bool" where
  "is_Exception e = True"

text \<open>Sequencing of statements that may raise: the first exception ends the block.\<close>

definition bind_exn :: "exn + 'a \<Rightarrow> ('a \<Rightarrow> exn + 'b) \<Rightarrow> exn + 'b" where
  "bind_exn m f = (case m of Inl e \<Rightarrow> Inl e | Inr x \<Rightarrow> f x)"

text \<open>
  A \<^verbatim>\<open>try\<close> block with its \<^verbatim>\<open>except\<close> clauses in source order: the first clause whose class
  test accepts the exception produces the returned value; an exception no clause accepts
  leaves the function (\<open>Inl\<close>).
\<close>

fun try_except :: "exn + json \<Rightarrow> ((exn \<Rightarrow> bool) \<times> (exn \<Rightarrow> json)) list \<Rightarrow> exn + json" where
  "try_except (Inr v) hs = Inr v"
| "try_except (Inl e) [] = Inl e"
| "try_except (Inl e) ((c, h) # hs) = (if c e then Inr (h e) else try_except (Inl e) hs)"

subsection \<open>Text of integers\<close>

definition digit_char :: "nat \<Rightarrow> char" where
  "digit_char d = ''0123456789abcdef'' ! d"

fun str_nat :: "nat \<Rightarrow> string" where
  "str_nat n = (if n < 10 then [digit_char n] else str_nat (n div 10) @ [digit_char (n mod 10)])"

declare str_nat.simps [simp del]

text \<open>The decimal digits of an integer, with a minus sign for a negative number.\<close>

definition str_int :: "int \<Rightarrow> string" where
  "str_int i = (if i < 0 then CHR ''-'' # str_nat (nat (- i)) else str_nat (nat i))"

text \<open>
  \<^verbatim>\<open>str(i)\<close> and \<^verbatim>\<open>repr(i)\<close> for an \<^verbatim>\<open>int\<close>: CPython (3.11, and the security releases of
  3.7 to 3.10) raises \<^verbatim>\<open>ValueError\<close> when the number has more than 4300 decimal digits, the
  default of \<^verbatim>\<open>sys.set_int_max_str_digits\<close>. The tools convert three kinds of integers. An
  argument of the caller can be of any size: its conversion is \<open>py_str\<close>. The length of a
  list (at most \<^verbatim>\<open>sys.maxsize\<close>) and the status code of a response (three digits) stay far
  below the limit in every run: their conversion is \<open>str_int\<close>.
\<close>

definition max_str_digits :: nat where
  "max_str_digits = 4300"

definition py_str :: "int \<Rightarrow> exn + string" where
  "py_str i =
     (if 10 ^ max_str_digits \<le> \<bar>i\<bar>
      then Inl (ValueError ''Exceeds the limit (4300 digits) for integer string conversion'')
      else Inr (str_int i))"

subsection \<open>Code points of a string\<close>

definition is_continuation :: "char \<Rightarrow> bool" where
  "is_continuation c = (128 \<le> (of_char c :: nat) \<and> (of_char c :: nat) < 192)"

text \<open>
  The bytes of each code point of a UTF-8 string: a leading byte and the continuation bytes
  (\<open>0x80\<close> to \<open>0xBF\<close>) after it.
\<close>

fun code_points :: "string \<Rightarrow> string list" where
  "code_points [] = []"
| "code_points (c # cs) =
     (case code_points cs of
        [] \<Rightarrow> [[c]]
      | g # gs \<Rightarrow> (if is_continuation (hd g) then (c # g) # gs else [c] # g # gs))"

subsection \<open>Python operations on JSON values\<close>

text \<open>
  Truth value of an object (\<^verbatim>\<open>if x:\<close>): \<^verbatim>\<open>None\<close>, \<^verbatim>\<open>False\<close>, zero and empty containers are
  false.
\<close>

fun py_truthy :: "json \<Rightarrow> bool" where
  "py_truthy JNull = False"
| "py_truthy (JBool b) = b"
| "py_truthy (JInt i) = (i \<noteq> 0)"
| "py_truthy (JFloat r) = (r \<noteq> ''0.0'' \<and> r \<noteq> ''-0.0'')"
| "py_truthy (JStr s) = (s \<noteq> [])"
| "py_truthy (JList xs) = (xs \<noteq> [])"
| "py_truthy (JObj d) = (d \<noteq> [])"

text \<open>Wording of the interpreter's messages: the type name of a value, in quotes.\<close>

fun type_name :: "json \<Rightarrow> string" where
  "type_name JNull = ''NoneType''"
| "type_name (JBool b) = ''bool''"
| "type_name (JInt i) = ''int''"
| "type_name (JFloat r) = ''float''"
| "type_name (JStr s) = ''str''"
| "type_name (JList xs) = ''list''"
| "type_name (JObj d) = ''dict''"

definition quoted :: "string \<Rightarrow> string" where
  "quoted s = [CHR 0x27] @ s @ [CHR 0x27]"

text \<open>
  \<^verbatim>\<open>key in x\<close> for a string key: a key test on a dict, an element test on a list, a
  substring test on a string, and \<^verbatim>\<open>TypeError\<close> on anything else.
\<close>

fun py_contains :: "string \<Rightarrow> json \<Rightarrow> exn + bool" where
  "py_contains k (JObj d) = Inr (map_of d k \<noteq> None)"
| "py_contains k (JList xs) = Inr (JStr k \<in> set xs)"
| "py_contains k (JStr s) = Inr (sublist k s)"
| "py_contains k x =
     Inl (TypeError (''argument of type '' @ quoted (type_name x) @ '' is not iterable''))"

text \<open>\<^verbatim>\<open>x[key]\<close> for a string key.\<close>

fun py_getitem :: "json \<Rightarrow> string \<Rightarrow> exn + json" where
  "py_getitem (JObj d) k =
     (case map_of d k of Some v \<Rightarrow> Inr v | None \<Rightarrow> Inl (KeyError (quoted k)))"
| "py_getitem (JList xs) k =
     Inl (TypeError ''list indices must be integers or slices, not str'')"
| "py_getitem (JStr s) k =
     Inl (TypeError (''string indices must be integers, not '' @ quoted ''str''))"
| "py_getitem x k = Inl (TypeError (quoted (type_name x) @ '' object is not subscriptable''))"

text \<open>\<^verbatim>\<open>x[key] = v\<close> for a string key.\<close>

fun py_setitem :: "json \<Rightarrow> string \<Rightarrow> json \<Rightarrow> exn + json" where
  "py_setitem (JObj d) k v = Inr (JObj (AList.update k v d))"
| "py_setitem (JList xs) k v =
     Inl (TypeError ''list indices must be integers or slices, not str'')"
| "py_setitem x k v =
     Inl (TypeError (quoted (type_name x) @ '' object does not support item assignment''))"

text \<open>\<^verbatim>\<open>len(x)\<close>; the length of a string counts code points.\<close>

fun py_len :: "json \<Rightarrow> exn + int" where
  "py_len (JList xs) = Inr (int (length xs))"
| "py_len (JStr s) = Inr (int (length (code_points s)))"
| "py_len (JObj d) = Inr (int (length d))"
| "py_len x = Inl (TypeError (''object of type '' @ quoted (type_name x) @ '' has no len()''))"

text \<open>
  A slice bound of \<^verbatim>\<open>xs[i:j]\<close> on a sequence of length \<open>len\<close>: a negative bound counts from
  the end, and the result is clamped to \<open>0..len\<close>.
\<close>

definition slice_bound :: "int \<Rightarrow> int \<Rightarrow> int" where
  "slice_bound len i = (if i < 0 then max (i + len) 0 else min i len)"

definition py_slice :: "'a list \<Rightarrow> int \<Rightarrow> int \<Rightarrow> 'a list" where
  "py_slice xs i j =
     (let len = int (length xs); a = slice_bound len i; b = slice_bound len j
      in take (nat (b - a)) (drop (nat a) xs))"

text \<open>\<^verbatim>\<open>x[i:j]\<close>: lists and strings can be sliced, a dict cannot.\<close>

fun py_getslice :: "json \<Rightarrow> int \<Rightarrow> int \<Rightarrow> exn + json" where
  "py_getslice (JList xs) i j = Inr (JList (py_slice xs i j))"
| "py_getslice (JStr s) i j = Inr (JStr (concat (py_slice (code_points s) i j)))"
| "py_getslice (JObj d) i j = Inl (TypeError (''unhashable type: '' @ quoted ''slice''))"
| "py_getslice x i j = Inl (TypeError (quoted (type_name x) @ '' object is not subscriptable''))"

text \<open>\<^verbatim>\<open>a // b\<close> on \<^verbatim>\<open>int\<close>: floor division, raising on a zero divisor.\<close>

definition py_floordiv :: "int \<Rightarrow> int \<Rightarrow> exn + int" where
  "py_floordiv a b =
     (if b = 0 then Inl (ZeroDivisionError ''integer division or modulo by zero'')
      else Inr (a div b))"

subsection \<open>\<^verbatim>\<open>json.dumps\<close> with its default arguments\<close>

text \<open>
  Items are separated by a comma and a space, keys from values by a colon and a space, and
  every character outside printable ASCII is escaped (\<^verbatim>\<open>ensure_ascii=True\<close>): a code
  point beyond the basic plane as a surrogate pair. An integer is written with
  \<^verbatim>\<open>int.__repr__\<close>, so the call raises \<^verbatim>\<open>ValueError\<close> for an integer beyond the digit limit.
\<close>

definition hex4 :: "nat \<Rightarrow> string" where
  "hex4 n = [digit_char (n div 4096 mod 16), digit_char (n div 256 mod 16),
             digit_char (n div 16 mod 16), digit_char (n mod 16)]"

definition lead_bits :: "nat \<Rightarrow> nat" where
  "lead_bits b = (if b < 128 then b else if b < 224 then b mod 32
                  else if b < 240 then b mod 16 else b mod 8)"

text \<open>The number of the code point whose UTF-8 bytes are given.\<close>

definition code_point_value :: "string \<Rightarrow> nat" where
  "code_point_value g =
     (case g of [] \<Rightarrow> 0
      | c # cs \<Rightarrow> foldl (\<lambda>a b. a * 64 + (of_char b :: nat) mod 64) (lead_bits (of_char c)) cs)"

definition escape_code_point :: "string \<Rightarrow> string" where
  "escape_code_point g =
     (let c = code_point_value g; bs = CHR 0x5C in
      if c = 34 then [bs, CHR 0x22]
      else if c = 92 then [bs, bs]
      else if 32 \<le> c \<and> c \<le> 126 then g
      else if c = 10 then [bs, CHR ''n'']
      else if c = 13 then [bs, CHR ''r'']
      else if c = 9 then [bs, CHR ''t'']
      else if c = 8 then [bs, CHR ''b'']
      else if c = 12 then [bs, CHR ''f'']
      else if c < 65536 then bs # CHR ''u'' # hex4 c
      else bs # CHR ''u'' # hex4 (55296 + (c - 65536) div 1024)
           @ bs # CHR ''u'' # hex4 (56320 + (c - 65536) mod 1024))"

definition encode_basestring_ascii :: "string \<Rightarrow> string" where
  "encode_basestring_ascii s =
     [CHR 0x22] @ concat (map escape_code_point (code_points s)) @ [CHR 0x22]"

fun str_join :: "string \<Rightarrow> string list \<Rightarrow> string" where
  "str_join sep [] = []"
| "str_join sep [x] = x"
| "str_join sep (x # y # ys) = x @ sep @ str_join sep (y # ys)"

definition float_str :: "string \<Rightarrow> string" where
  "float_str r = (if r = ''nan'' then ''NaN'' else if r = ''inf'' then ''Infinity''
                  else if r = ''-inf'' then ''-Infinity'' else r)"

fun json_dumps :: "json \<Rightarrow> exn + string"
  and dumps_items :: "json list \<Rightarrow> exn + string list"
  and dumps_members :: "(string \<times> json) list \<Rightarrow> exn + string list" where
  "json_dumps JNull = Inr ''null''"
| "json_dumps (JBool b) = Inr (if b then ''true'' else ''false'')"
| "json_dumps (JInt i) = py_str i"
| "json_dumps (JFloat r) = Inr (float_str r)"
| "json_dumps (JStr s) = Inr (encode_basestring_ascii s)"
| "json_dumps (JList xs) =
     (case dumps_items xs of Inl e \<Rightarrow> Inl e
      | Inr ts \<Rightarrow> Inr (''['' @ str_join '', '' ts @ '']''))"
| "json_dumps (JObj d) =
     (case dumps_members d of Inl e \<Rightarrow> Inl e
      | Inr ts \<Rightarrow> Inr (''{'' @ str_join '', '' ts @ ''}''))"
| "dumps_items [] = Inr []"
| "dumps_items (x # xs) =
     (case json_dumps x of Inl e \<Rightarrow> Inl e
      | Inr t \<Rightarrow> (case dumps_items xs of Inl e \<Rightarrow> Inl e | Inr ts \<Rightarrow> Inr (t # ts)))"
| "dumps_members [] = Inr []"
| "dumps_members ((k, v) # d) =
     (case json_dumps v of Inl e \<Rightarrow> Inl e
      | Inr t \<Rightarrow>
          (case dumps_members d of Inl e \<Rightarrow> Inl e
           | Inr ts \<Rightarrow> Inr ((encode_basestring_ascii k @ '': '' @ t) # ts)))"

section \<open>The HTTP client\<close>

text \<open>
  A request as the tools hand it to \<^verbatim>\<open>httpx\<close>: the URL text, the \<^verbatim>\<open>params\<close> dictionary when one
  is passed, and the body. \<^verbatim>\<open>AsyncClient.get\<close> sends a \<^verbatim>\<open>GET\<close> and takes no body.
\<close>

datatype http_method = GET | POST

record request =
  verb :: http_method
  url :: string
  params :: "(string \<times> json) list option"
  body :: "string option"

text \<open>
  A response: its status code, the text \<^verbatim>\<open>httpx\<close> gives the \<^verbatim>\<open>HTTPStatusError\<close> it raises
  for that response, and what \<^verbatim>\<open>response.json()\<close> does: it returns the decoded value
  (\<open>Inr\<close>) or raises a \<^verbatim>\<open>ValueError\<close> with the given message (\<open>Inl\<close>).
\<close>

record response =
  status_code :: int
  status_text :: string
  decoded :: "string + json"

text \<open>
  The remote side and the transport, seen from a tool: for a request, \<^verbatim>\<open>client.get\<close> either
  raises (a \<^verbatim>\<open>RequestError\<close> for a transport failure, another exception for, say, an
  invalid URL) or returns a response.
\<close>

type_synonym upstream = "request \<Rightarrow> exn + response"

text \<open>\<^verbatim>\<open>await client.get(url, params=...)\<close>: the request is appended to the requests sent so far.\<close>

definition client_get ::
  "upstream \<Rightarrow> string \<Rightarrow> (string \<times> json) list option \<Rightarrow> request list
     \<Rightarrow> (exn + response) \<times> request list" where
  "client_get up u ps sent =
     (let req = \<lparr>verb = GET, url = u, params = ps, body = None\<rparr>
      in (up req, sent @ [req]))"

definition is_success :: "int \<Rightarrow> bool" where
  "is_success c = (200 \<le> c \<and> c \<le> 299)"

text \<open>
  \<^verbatim>\<open>response.raise_for_status()\<close>: raises unless the status is 2xx (so current \<^verbatim>\<open>httpx\<close>; old
  releases raised for 4xx and 5xx only).
\<close>

definition raise_for_status :: "response \<Rightarrow> exn + response" where
  "raise_for_status r =
     (if is_success (status_code r) then Inr r
      else Inl (HTTPStatusError (status_code r) (status_text r)))"

definition response_json :: "response \<Rightarrow> exn + json" where
  "response_json r = (case decoded r of Inl m \<Rightarrow> Inl (ValueError m) | Inr v \<Rightarrow> Inr v)"

definition error_dict :: "string \<Rightarrow> json" where
  "error_dict m = JObj [(''error'', JStr m)]"

section \<open>The tools\<close>

text \<open>
  Every tool takes the remote side first and returns what the Python function returns
  (\<open>Inr\<close>) or the exception that leaves it (\<open>Inl\<close>), together with the requests it sent.
  An optional argument whose default is \<^verbatim>\<open>None\<close> is an \<open>option\<close>.
\<close>

type_synonym tool_result = "(exn + json) \<times> request list"

subsection \<open>\<^verbatim>\<open>cbdb_addr.py\<close>\<close>

definition cbdb_addr_search_places_under_location ::
  "upstream \<Rightarrow> string \<Rightarrow> int \<Rightarrow> int option \<Rightarrow> int option \<Rightarrow> int \<Rightarrow> int \<Rightarrow> tool_result" where
  "cbdb_addr_search_places_under_location up name accurate startTime endTime start list_length =
     (let api_url = ''https://input.cbdb.fas.harvard.edu/api/place_list'';
          params = [(''name'', JStr name), (''accurate'', JInt accurate),
                    (''start'', JInt start), (''list'', JInt list_length)];
          params = (case startTime of None \<Rightarrow> params
                    | Some t \<Rightarrow> AList.update ''startTime'' (JInt t) params);
          params = (case endTime of None \<Rightarrow> params
                    | Some t \<Rightarrow> AList.update ''endTime'' (JInt t) params);
          (got, sent) = client_get up api_url (Some params) []
      in (try_except
            (bind_exn got (\<lambda>response.
             bind_exn (raise_for_status response) (\<lambda>response.
             response_json response)))
            [(is_RequestError, \<lambda>exc. error_dict (''API request failed: '' @ str_exn exc)),
             (is_Exception, \<lambda>e. error_dict (''An unexpected error occurred: '' @ str_exn e))],
          sent))"

subsection \<open>\<^verbatim>\<open>cbdb_addr_person.py\<close>\<close>

definition cbdb_addr_person_search_places_under_location ::
  "upstream \<Rightarrow> string \<Rightarrow> int \<Rightarrow> int option \<Rightarrow> int option \<Rightarrow> int \<Rightarrow> int \<Rightarrow> tool_result" where
  "cbdb_addr_person_search_places_under_location up name accurate startTime endTime start
       list_length =
     (let api_url = ''https://input.cbdb.fas.harvard.edu/api/place_list'';
          params = [(''name'', JStr name), (''accurate'', JInt accurate),
                    (''start'', JInt start), (''list'', JInt list_length)];
          params = (case startTime of None \<Rightarrow> params
                    | Some t \<Rightarrow> AList.update ''startTime'' (JInt t) params);
          params = (case endTime of None \<Rightarrow> params
                    | Some t \<Rightarrow> AList.update ''endTime'' (JInt t) params);
          (got, sent) = client_get up api_url (Some params) []
      in (try_except
            (bind_exn got (\<lambda>response.
             bind_exn (raise_for_status response) (\<lambda>response.
             response_json response)))
            [(is_RequestError, \<lambda>exc. error_dict (''API request failed: '' @ str_exn exc)),
             (is_Exception, \<lambda>e. error_dict (''An unexpected error occurred: '' @ str_exn e))],
          sent))"

text \<open>An argument that is \<^verbatim>\<open>None\<close> or a value, as the entry of a dictionary.\<close>

definition opt_int :: "int option \<Rightarrow> json" where
  "opt_int x = (case x of None \<Rightarrow> JNull | Some i \<Rightarrow> JInt i)"

definition opt_str :: "string option \<Rightarrow> json" where
  "opt_str x = (case x of None \<Rightarrow> JNull | Some s \<Rightarrow> JStr s)"

text \<open>The dictionary \<^verbatim>\<open>payload\<close> of \<^verbatim>\<open>query_people_by_place\<close>.\<close>

definition payload ::
  "int list \<Rightarrow> string list \<Rightarrow> int \<Rightarrow> string option \<Rightarrow> int option \<Rightarrow> int option \<Rightarrow> int option
     \<Rightarrow> int option \<Rightarrow> int \<Rightarrow> int \<Rightarrow> int \<Rightarrow> json" where
  "payload people_place place_type use_date date_type date_start_time date_end_time dyn_start
       dyn_end use_xy start list_length =
     JObj [(''peoplePlace'', JList (map JInt people_place)),
           (''placeType'', JList (map JStr place_type)),
           (''useDate'', JInt use_date),
           (''dateType'', opt_str date_type),
           (''dateStartTime'', opt_int date_start_time),
           (''dateEndTime'', opt_int date_end_time),
           (''dynStart'', opt_int dyn_start),
           (''dynEnd'', opt_int dyn_end),
           (''useXy'', JInt use_xy),
           (''start'', JInt start),
           (''list'', JInt list_length)]"

text \<open>
  \<^verbatim>\<open>json.dumps(payload)\<close> stands before the \<^verbatim>\<open>try\<close> block: when it raises, the exception
  leaves the function and no request is sent.
\<close>

definition query_people_by_place ::
  "upstream \<Rightarrow> int list \<Rightarrow> string list \<Rightarrow> int \<Rightarrow> string option \<Rightarrow> int option \<Rightarrow> int option
     \<Rightarrow> int option \<Rightarrow> int option \<Rightarrow> int \<Rightarrow> int \<Rightarrow> int \<Rightarrow> tool_result" where
  "query_people_by_place up people_place place_type use_date date_type date_start_time
       date_end_time dyn_start dyn_end use_xy start list_length =
     (let api_url = ''https://input.cbdb.fas.harvard.edu/api/query_place'' in
      case json_dumps (payload people_place place_type use_date date_type date_start_time
             date_end_time dyn_start dyn_end use_xy start list_length) of
        Inl e \<Rightarrow> (Inl e, [])
      | Inr request_payload \<Rightarrow>
          (let (got, sent) =
                 client_get up (api_url @ ''?RequestPayload='' @ request_payload) None []
           in (try_except
                 (bind_exn got (\<lambda>response.
                  bind_exn (raise_for_status response) (\<lambda>response.
                  response_json response)))
                 [(is_RequestError,
                     \<lambda>exc. error_dict (''API request failed: '' @ str_exn exc)),
                  (is_Exception,
                     \<lambda>e. error_dict (''An unexpected error occurred: '' @ str_exn e))],
               sent)))"

subsection \<open>\<^verbatim>\<open>chgis.py\<close>\<close>

text \<open>
  The block of \<^verbatim>\<open>search_historical_places\<close> after \<^verbatim>\<open>results = response.json()\<close>: the test
  \<^verbatim>\<open>"placenames" in results and results["placenames"]\<close>, the slice, the three
  assignments to \<^verbatim>\<open>results\<close>, and \<^verbatim>\<open>return results\<close>.
\<close>

definition paginate_results :: "json \<Rightarrow> int \<Rightarrow> int \<Rightarrow> exn + json" where
  "paginate_results results start list_length =
     bind_exn (py_contains ''placenames'' results) (\<lambda>has.
     if \<not> has then Inr results else
     bind_exn (py_getitem results ''placenames'') (\<lambda>found.
     if \<not> py_truthy found then Inr results else
     bind_exn (py_getitem results ''placenames'') (\<lambda>placenames.
     bind_exn (py_len placenames) (\<lambda>len_placenames.
     bind_exn (if start \<le> len_placenames
               then py_getslice placenames (start - 1) (start - 1 + list_length)
               else Inr (JList [])) (\<lambda>paginated_results.
     bind_exn (py_setitem results ''placenames'' paginated_results) (\<lambda>results.
     bind_exn (py_len paginated_results) (\<lambda>len_paginated.
     bind_exn (py_setitem results ''count of displayed results''
                 (JStr (str_int len_paginated))) (\<lambda>results.
     bind_exn (py_floordiv (len_placenames + list_length - 1) list_length) (\<lambda>total_pages.
     py_setitem results ''pagination''
       (JObj [(''start'', JInt start),
              (''end'', JInt (if len_paginated > 0
                              then min (start + len_paginated - 1) len_placenames
                              else start)),
              (''total_pages'', JInt total_pages)]))))))))))"

definition search_historical_places ::
  "upstream \<Rightarrow> string \<Rightarrow> int option \<Rightarrow> string option \<Rightarrow> string option \<Rightarrow> int \<Rightarrow> int
     \<Rightarrow> tool_result" where
  "search_historical_places up name year feature_type parent start list_length =
     (let api_url = ''http://tgaz.fudan.edu.cn/tgaz/placename'';
          params = [(''fmt'', JStr ''json''), (''n'', JStr name)];
          params = (case year of None \<Rightarrow> params
                    | Some y \<Rightarrow> AList.update ''yr'' (JInt y) params);
          params = (case feature_type of None \<Rightarrow> params
                    | Some f \<Rightarrow> AList.update ''ftyp'' (JStr f) params);
          params = (case parent of None \<Rightarrow> params
                    | Some p \<Rightarrow> AList.update ''p'' (JStr p) params);
          (got, sent) = client_get up api_url (Some params) []
      in (try_except
            (bind_exn got (\<lambda>response.
             bind_exn (raise_for_status response) (\<lambda>response.
             bind_exn (response_json response) (\<lambda>results.
             paginate_results results start list_length))))
            [(is_RequestError, \<lambda>exc. error_dict (''API request failed: '' @ str_exn exc)),
             (is_Exception, \<lambda>e. error_dict (''An unexpected error occurred: '' @ str_exn e))],
          sent))"

text \<open>
  The first statement of \<^verbatim>\<open>get_place_details\<close>: the identifier that goes into the path.
\<close>

definition prefixed_place_id :: "string \<Rightarrow> string" where
  "prefixed_place_id place_id =
     (if \<not> prefix ''hvd_'' place_id then ''hvd_'' @ place_id else place_id)"

text \<open>
  The test on \<^verbatim>\<open>"source note"\<close> in \<^verbatim>\<open>get_place_details\<close>: its body is \<^verbatim>\<open>pass\<close>, but the
  membership test and the subscript are evaluated.
\<close>

definition is_str :: "json \<Rightarrow> bool" where
  "is_str v = (case v of JStr s \<Rightarrow> True | _ \<Rightarrow> False)"

definition check_source_note :: "json \<Rightarrow> exn + json" where
  "check_source_note place_data =
     bind_exn (py_contains ''source note'' place_data) (\<lambda>has.
     if \<not> has then Inr place_data else
     bind_exn (py_getitem place_data ''source note'') (\<lambda>note.
     if is_str note then Inr place_data else Inr place_data))"

text \<open>\<^verbatim>\<open>exc.response.status_code\<close> of an \<^verbatim>\<open>HTTPStatusError\<close>.\<close>

fun response_status_code :: "exn \<Rightarrow> int" where
  "response_status_code (HTTPStatusError c m) = c"
| "response_status_code e = 0"

definition get_place_details :: "upstream \<Rightarrow> string \<Rightarrow> tool_result" where
  "get_place_details up place_id =
     (let place_id = prefixed_place_id place_id;
          api_url = ''http://tgaz.fudan.edu.cn/tgaz/placename/json/'' @ place_id;
          (got, sent) = client_get up api_url None []
      in (try_except
            (bind_exn got (\<lambda>response.
             bind_exn (raise_for_status response) (\<lambda>response.
             bind_exn (response_json response) (\<lambda>place_data.
             check_source_note place_data))))
            [(is_RequestError, \<lambda>exc. error_dict (''API request failed: '' @ str_exn exc)),
             (is_HTTPStatusError, \<lambda>exc.
                error_dict (''HTTP error status: '' @ str_int (response_status_code exc))),
             (is_ValueError, \<lambda>exc. error_dict (''Invalid response format: '' @ str_exn exc)),
             (is_Exception, \<lambda>e. error_dict (''An unexpected error occurred: '' @ str_exn e))],
          sent))"

section \<open>Notions used in the statements\<close>

text \<open>
  What the first three statements of every \<^verbatim>\<open>try\<close> block yield for the request \<open>r\<close>:
  the response is awaited, its status is checked, its body is decoded.
\<close>

definition fetched :: "upstream \<Rightarrow> request \<Rightarrow> exn + json" where
  "fetched up r =
     bind_exn (up r) (\<lambda>response.
     bind_exn (raise_for_status response) (\<lambda>response.
     response_json response))"

text \<open>
  The value returned after the two \<^verbatim>\<open>except\<close> clauses of \<^verbatim>\<open>search_places_under_location\<close>,
  \<^verbatim>\<open>query_people_by_place\<close> and \<^verbatim>\<open>search_historical_places\<close>, and after the four clauses of
  \<^verbatim>\<open>get_place_details\<close>.
\<close>

definition handled_two :: "exn + json \<Rightarrow> json" where
  "handled_two m =
     (case m of Inr v \<Rightarrow> v
      | Inl e \<Rightarrow> if is_RequestError e then error_dict (''API request failed: '' @ str_exn e)
                else error_dict (''An unexpected error occurred: '' @ str_exn e))"

definition handled_four :: "exn + json \<Rightarrow> json" where
  "handled_four m =
     (case m of Inr v \<Rightarrow> v
      | Inl e \<Rightarrow>
          if is_RequestError e then error_dict (''API request failed: '' @ str_exn e)
          else if is_HTTPStatusError e
            then error_dict (''HTTP error status: '' @ str_int (response_status_code e))
          else if is_ValueError e then error_dict (''Invalid response format: '' @ str_exn e)
          else error_dict (''An unexpected error occurred: '' @ str_exn e))"

text \<open>A member of a JSON object as text: the key in double quotes, a colon, the value.\<close>

definition json_member :: "string \<Rightarrow> string \<Rightarrow> string" where
  "json_member k t = [CHR 0x22] @ k @ [CHR 0x22] @ '': '' @ t"

text \<open>The keys of the \<^verbatim>\<open>params\<close> dictionaries of a list of requests.\<close>

definition sent_keys :: "request list \<Rightarrow> string list" where
  "sent_keys rs = concat (map (\<lambda>r. case params r of None \<Rightarrow> [] | Some ps \<Rightarrow> map fst ps) rs)"

text \<open>
  Remote sides for the examples: one that refuses every connection, one that answers
  every request with status 200 and a given decoded body, one that answers 404, one whose
  body is not JSON, and a client that rejects the URL before sending.
\<close>

definition refusing :: upstream where
  "refusing = (\<lambda>r. Inl (RequestError ''All connection attempts failed''))"

definition answering :: "json \<Rightarrow> upstream" where
  "answering b = (\<lambda>r. Inr \<lparr>status_code = 200, status_text = ''OK'', decoded = Inr b\<rparr>)"

definition not_found :: upstream where
  "not_found = (\<lambda>r. Inr \<lparr>status_code = 404,
       status_text = ''Client error: 404 Not Found'', decoded = Inl ''Expecting value''\<rparr>)"

definition garbled :: upstream where
  "garbled = (\<lambda>r. Inr \<lparr>status_code = 200, status_text = ''OK'',
       decoded = Inl ''Expecting value: line 1 column 1 (char 0)''\<rparr>)"

definition rejecting_url :: upstream where
  "rejecting_url = (\<lambda>r. Inl (OtherException ''Invalid non-printable ASCII character in URL''))"

text \<open>
  The claim about pagination, in the words of the specification. For a list of length \<open>L\<close>,
  start \<open>s\<close> and page size \<open>n\<close>, the page holds the elements at the zero-based indices from
  \<open>s - 1\<close> up to, but not including, \<open>min (s - 1 + n) L\<close> when \<open>s \<le> L\<close>, and is empty
  otherwise (an index has an element when it lies in \<open>0..<L\<close>).
\<close>

definition spec_slice :: "'a list \<Rightarrow> int \<Rightarrow> int \<Rightarrow> 'a list" where
  "spec_slice xs s n =
     (let L = int (length xs) in
      if s \<le> L
      then map (\<lambda>i. xs ! nat i) (filter (\<lambda>i. 0 \<le> i \<and> i < L) [s - 1..min (s - 1 + n) L - 1])
      else [])"

text \<open>
  The result the specification describes for a decoded body \<open>d\<close> whose list is \<open>xs\<close>: the
  list is replaced by the page, the displayed count is the length of the page as text, and
  the pagination object holds the start, the end (\<open>min (s + k - 1) L\<close> for a page of
  \<open>k > 0\<close> elements, \<open>s\<close> for an empty page) and the ceiling of \<open>L / n\<close>.
\<close>

definition spec_paginate :: "(string \<times> json) list \<Rightarrow> json list \<Rightarrow> int \<Rightarrow> int \<Rightarrow> json" where
  "spec_paginate d xs s n =
     (let L = int (length xs); page = spec_slice xs s n; k = int (length page) in
      JObj (AList.update ''pagination''
              (JObj [(''start'', JInt s),
                     (''end'', JInt (if page \<noteq> [] then min (s + k - 1) L else s)),
                     (''total_pages'', JInt \<lceil>real_of_int L / real_of_int n\<rceil>)])
           (AList.update ''count of displayed results'' (JStr (str_int k))
           (AList.update ''placenames'' (JList page) d))))"

text \<open>
  Readers of a returned value for closed statements: whether it is a dictionary with the
  single key \<^verbatim>\<open>error\<close> and a string under it, and the value under a key of a returned
  dictionary.
\<close>

fun is_error_dict :: "json \<Rightarrow> bool" where
  "is_error_dict (JObj [(k, JStr m)]) = (k = ''error'')"
| "is_error_dict v = False"

definition returned_error :: "tool_result \<Rightarrow> bool" where
  "returned_error t = (case fst t of Inr v \<Rightarrow> is_error_dict v | Inl e \<Rightarrow> False)"

definition returned_field :: "tool_result \<Rightarrow> string \<Rightarrow> json option" where
  "returned_field t k = (case fst t of Inr (JObj d) \<Rightarrow> map_of d k | _ \<Rightarrow> None)"




text \<open>Whether an exception left the tool.\<close>

definition raised :: "tool_result \<Rightarrow> bool" where
  "raised t = (case fst t of Inl e \<Rightarrow> True | Inr v \<Rightarrow> False)"

text \<open>An integer whose text \<^verbatim>\<open>json.dumps\<close> can write.\<close>

definition within_limit :: "int \<Rightarrow> bool" where
  "within_limit i = (\<bar>i\<bar> < 10 ^ max_str_digits)"

definition opt_within_limit :: "int option \<Rightarrow> bool" where
  "opt_within_limit x = (case x of None \<Rightarrow> True | Some i \<Rightarrow> within_limit i)"

text \<open>
  The query parameters that the text of a URL carries to the server (RFC 3986 and the
  form encoding of queries): what follows the first \<^verbatim>\<open>#\<close> is the fragment, which is not
  sent; the query is what follows the first \<^verbatim>\<open>?\<close>; its parameters are separated by \<^verbatim>\<open>&\<close>,
  and a name from its value by the first \<^verbatim>\<open>=\<close>. The client writes other characters (a
  space, a double quote) as percent escapes and the server reads them back, which is left
  out here.
\<close>

fun split_first :: "char \<Rightarrow> string \<Rightarrow> string \<times> string option" where
  "split_first c [] = ([], None)"
| "split_first c (x # xs) =
     (if x = c then ([], Some xs)
      else (case split_first c xs of (before, rest) \<Rightarrow> (x # before, rest)))"

fun split_all :: "char \<Rightarrow> string \<Rightarrow> string list" where
  "split_all c [] = [[]]"
| "split_all c (x # xs) =
     (case split_all c xs of
        [] \<Rightarrow> [[x]]
      | g # gs \<Rightarrow> (if x = c then [] # g # gs else (x # g) # gs))"

definition url_query_params :: "string \<Rightarrow> (string \<times> string) list" where
  "url_query_params u =
     (case snd (split_first (CHR ''?'') (fst (split_first (CHR ''#'') u))) of
        None \<Rightarrow> []
      | Some query \<Rightarrow>
          map (\<lambda>p. case split_first (CHR ''='') p of
                     (name, None) \<Rightarrow> (name, [])
                   | (name, Some v) \<Rightarrow> (name, v))
            (filter (\<lambda>p. p \<noteq> []) (split_all (CHR ''&'') query)))"

section \<open>Properties of the tools\<close>

subsection \<open>Handlers, requests and results\<close>

lemma try_except_two:
  "try_except m [(is_RequestError, h1), (is_Exception, h2)] =
     Inr (case m of Inr v \<Rightarrow> v | Inl e \<Rightarrow> if is_RequestError e then h1 e else h2 e)"
  by (cases m) simp_all

lemma try_except_four:
  "try_except m [(is_RequestError, h1), (is_HTTPStatusError, h2), (is_ValueError, h3),
                 (is_Exception, h4)] =
     Inr (case m of Inr v \<Rightarrow> v
          | Inl e \<Rightarrow> if is_RequestError e then h1 e else if is_HTTPStatusError e then h2 e
                    else if is_ValueError e then h3 e else h4 e)"
  by (cases m) simp_all

lemma bind_exn_Inr:
  "bind_exn m f = Inr v \<Longrightarrow> \<exists>b. m = Inr b \<and> f b = Inr v"
  by (cases m) (auto simp: bind_exn_def)

lemma fetched_raised: "up r = Inl e \<Longrightarrow> fetched up r = Inl e"
  by (simp add: fetched_def bind_exn_def)

lemma fetched_status:
  "up r = Inr resp \<Longrightarrow> \<not> is_success (status_code resp) \<Longrightarrow>
   fetched up r = Inl (HTTPStatusError (status_code resp) (status_text resp))"
  by (simp add: fetched_def bind_exn_def raise_for_status_def)

lemma fetched_undecodable:
  "up r = Inr resp \<Longrightarrow> is_success (status_code resp) \<Longrightarrow> decoded resp = Inl m \<Longrightarrow>
   fetched up r = Inl (ValueError m)"
  by (simp add: fetched_def bind_exn_def raise_for_status_def response_json_def)

lemma fetched_decoded:
  "up r = Inr resp \<Longrightarrow> is_success (status_code resp) \<Longrightarrow> decoded resp = Inr b \<Longrightarrow>
   fetched up r = Inr b"
  by (simp add: fetched_def bind_exn_def raise_for_status_def response_json_def)

lemma fetched_Inr:
  "fetched up r = Inr b \<Longrightarrow>
   \<exists>resp. up r = Inr resp \<and> is_success (status_code resp) \<and> decoded resp = Inr b"
  by (auto simp: fetched_def bind_exn_def raise_for_status_def response_json_def
      split: sum.splits if_splits)

lemma bind_fetched:
  "bind_exn (up r) (\<lambda>response. bind_exn (raise_for_status response) (\<lambda>response.
     bind_exn (response_json response) f)) = bind_exn (fetched up r) f"
  by (simp add: fetched_def bind_exn_def split: sum.splits)

lemma handled_two_transport:
  "handled_two (Inl (RequestError m)) = error_dict (''API request failed: '' @ m)"
  by (simp add: handled_two_def)

lemma handled_four_transport:
  "handled_four (Inl (RequestError m)) = error_dict (''API request failed: '' @ m)"
  by (simp add: handled_four_def)

lemma handled_two_shape:
  "(\<exists>msg. handled_two m = error_dict msg) \<or> m = Inr (handled_two m)"
  by (cases m) (auto simp: handled_two_def)

lemma handled_four_shape:
  "(\<exists>msg. handled_four m = error_dict msg) \<or> m = Inr (handled_four m)"
  by (cases m) (auto simp: handled_four_def)

text \<open>The request each tool sends.\<close>

lemma location_search_sent:
  "snd (cbdb_addr_search_places_under_location up name accurate startTime endTime start
          list_length) =
     [\<lparr>verb = GET, url = ''https://input.cbdb.fas.harvard.edu/api/place_list'',
       params = Some ([(''name'', JStr name), (''accurate'', JInt accurate),
                       (''start'', JInt start), (''list'', JInt list_length)]
                      @ (case startTime of None \<Rightarrow> [] | Some t \<Rightarrow> [(''startTime'', JInt t)])
                      @ (case endTime of None \<Rightarrow> [] | Some t \<Rightarrow> [(''endTime'', JInt t)])),
       body = None\<rparr>]"
  by (simp add: cbdb_addr_search_places_under_location_def client_get_def Let_def
      split: option.split)

lemma location_search_person_eq:
  "cbdb_addr_person_search_places_under_location = cbdb_addr_search_places_under_location"
  by (intro ext) (simp add: cbdb_addr_person_search_places_under_location_def
      cbdb_addr_search_places_under_location_def)

lemma location_search_person_sent:
  "snd (cbdb_addr_person_search_places_under_location up name accurate startTime endTime start
          list_length) =
     [\<lparr>verb = GET, url = ''https://input.cbdb.fas.harvard.edu/api/place_list'',
       params = Some ([(''name'', JStr name), (''accurate'', JInt accurate),
                       (''start'', JInt start), (''list'', JInt list_length)]
                      @ (case startTime of None \<Rightarrow> [] | Some t \<Rightarrow> [(''startTime'', JInt t)])
                      @ (case endTime of None \<Rightarrow> [] | Some t \<Rightarrow> [(''endTime'', JInt t)])),
       body = None\<rparr>]"
  by (simp only: location_search_person_eq location_search_sent)

lemma people_by_place_sent:
  "json_dumps (payload people_place place_type use_date date_type date_start_time date_end_time
     dyn_start dyn_end use_xy start list_length) = Inr t \<Longrightarrow>
   snd (query_people_by_place up people_place place_type use_date date_type date_start_time
          date_end_time dyn_start dyn_end use_xy start list_length) =
     [\<lparr>verb = GET,
       url = ''https://input.cbdb.fas.harvard.edu/api/query_place?RequestPayload='' @ t,
       params = None, body = None\<rparr>]"
  by (simp add: query_people_by_place_def client_get_def Let_def)

lemma people_by_place_raises:
  "json_dumps (payload people_place place_type use_date date_type date_start_time date_end_time
     dyn_start dyn_end use_xy start list_length) = Inl e \<Longrightarrow>
   query_people_by_place up people_place place_type use_date date_type date_start_time
     date_end_time dyn_start dyn_end use_xy start list_length = (Inl e, [])"
  by (simp add: query_people_by_place_def)

lemma gazetteer_search_sent:
  "snd (search_historical_places up name year feature_type parent start list_length) =
     [\<lparr>verb = GET, url = ''http://tgaz.fudan.edu.cn/tgaz/placename'',
       params = Some ([(''fmt'', JStr ''json''), (''n'', JStr name)]
                      @ (case year of None \<Rightarrow> [] | Some y \<Rightarrow> [(''yr'', JInt y)])
                      @ (case feature_type of None \<Rightarrow> [] | Some f \<Rightarrow> [(''ftyp'', JStr f)])
                      @ (case parent of None \<Rightarrow> [] | Some p \<Rightarrow> [(''p'', JStr p)])),
       body = None\<rparr>]"
  by (simp add: search_historical_places_def client_get_def Let_def split: option.split)

lemma get_place_details_sent:
  "snd (get_place_details up place_id) =
     [\<lparr>verb = GET,
       url = ''http://tgaz.fudan.edu.cn/tgaz/placename/json/'' @ prefixed_place_id place_id,
       params = None, body = None\<rparr>]"
  by (simp add: get_place_details_def client_get_def Let_def)

text \<open>The value each tool returns, from what its request yields.\<close>

lemma location_search_result:
  "snd (cbdb_addr_search_places_under_location up name accurate startTime endTime start
          list_length) = [r] \<Longrightarrow>
   fst (cbdb_addr_search_places_under_location up name accurate startTime endTime start
          list_length) = Inr (handled_two (fetched up r))"
  by (simp add: cbdb_addr_search_places_under_location_def client_get_def Let_def
      try_except_two handled_two_def fetched_def split: sum.split)

lemma people_by_place_result:
  "snd (query_people_by_place up people_place place_type use_date date_type date_start_time
          date_end_time dyn_start dyn_end use_xy start list_length) = [r] \<Longrightarrow>
   fst (query_people_by_place up people_place place_type use_date date_type date_start_time
          date_end_time dyn_start dyn_end use_xy start list_length) =
     Inr (handled_two (fetched up r))"
  by (cases "json_dumps (payload people_place place_type use_date date_type date_start_time
        date_end_time dyn_start dyn_end use_xy start list_length)")
    (simp_all add: query_people_by_place_def client_get_def Let_def
      try_except_two handled_two_def fetched_def split: sum.split)

lemma gazetteer_search_result:
  "snd (search_historical_places up name year feature_type parent start list_length) = [r] \<Longrightarrow>
   fst (search_historical_places up name year feature_type parent start list_length) =
     Inr (handled_two (bind_exn (fetched up r) (\<lambda>results.
            paginate_results results start list_length)))"
  by (simp add: search_historical_places_def client_get_def Let_def
      try_except_two handled_two_def bind_fetched split: sum.split)

lemma gazetteer_search_decoded:
  assumes "snd (search_historical_places up name year feature_type parent s n) = [r]"
    "up r = Inr resp" "is_success (status_code resp)" "decoded resp = Inr b"
  shows "fst (search_historical_places up name year feature_type parent s n) =
     Inr (handled_two (paginate_results b s n))"
  using assms
  by (simp add: gazetteer_search_result fetched_decoded bind_exn_def)

lemma place_details_result:
  "snd (get_place_details up place_id) = [r] \<Longrightarrow>
   fst (get_place_details up place_id) =
     Inr (handled_four (bind_exn (fetched up r) check_source_note))"
  by (simp add: get_place_details_def client_get_def Let_def
      try_except_four handled_four_def bind_fetched split: sum.split)

lemma check_source_note_dict: "check_source_note (JObj d) = Inr (JObj d)"
  by (simp add: check_source_note_def bind_exn_def split: option.split)

lemma check_source_note_Inr: "check_source_note b = Inr v \<Longrightarrow> v = b"
  by (auto simp: check_source_note_def bind_exn_def split: sum.splits if_splits)

subsection \<open>C9: the duplicated location search\<close>

text \<open>
  Claim C9. The function \<^verbatim>\<open>search_places_under_location\<close> of \<^verbatim>\<open>cbdb_addr_person.py\<close> and the
  one of \<^verbatim>\<open>cbdb_addr.py\<close> are the same function: for every argument list and every remote
  side they send the same request and return the same value.
\<close>

theorem duplicate_location_search:
  "cbdb_addr_person_search_places_under_location up name accurate startTime endTime start
     list_length =
   cbdb_addr_search_places_under_location up name accurate startTime endTime start list_length"
  by (simp add: cbdb_addr_person_search_places_under_location_def
      cbdb_addr_search_places_under_location_def)

subsection \<open>C3: the identifier of a place\<close>

lemma prefixed_place_id_idem: "prefixed_place_id (prefixed_place_id p) = prefixed_place_id p"
  by (simp add: prefixed_place_id_def)

text \<open>
  Claim C3. \<^verbatim>\<open>get_place_details\<close> requests the path that ends in \<^verbatim>\<open>hvd_\<close> followed by the
  identifier when the identifier does not start with \<^verbatim>\<open>hvd_\<close>, and in the identifier itself
  when it does: \<^verbatim>\<open>80547\<close> gives \<^verbatim>\<open>hvd_80547\<close>, \<^verbatim>\<open>hvd_80547\<close> stays, and normalising a second
  time changes neither the identifier nor the call.
\<close>

theorem place_id_normalization:
  "map url (snd (get_place_details up place_id)) =
     [''http://tgaz.fudan.edu.cn/tgaz/placename/json/'' @
        (if prefix ''hvd_'' place_id then place_id else ''hvd_'' @ place_id)]
   \<and> map url (snd (get_place_details up ''80547'')) =
     [''http://tgaz.fudan.edu.cn/tgaz/placename/json/hvd_80547'']
   \<and> map url (snd (get_place_details up ''hvd_80547'')) =
     [''http://tgaz.fudan.edu.cn/tgaz/placename/json/hvd_80547'']
   \<and> prefixed_place_id (prefixed_place_id place_id) = prefixed_place_id place_id
   \<and> get_place_details up (prefixed_place_id place_id) = get_place_details up place_id"
proof -
  have a: "prefixed_place_id ''80547'' = ''hvd_80547''"
    by (simp add: prefixed_place_id_def)
  have b: "prefixed_place_id ''hvd_80547'' = ''hvd_80547''"
    by (simp add: prefixed_place_id_def)
  have c: "get_place_details up (prefixed_place_id place_id) = get_place_details up place_id"
    by (simp add: get_place_details_def prefixed_place_id_idem)
  show ?thesis
    using a b c by (simp add: get_place_details_sent prefixed_place_id_idem)
      (simp add: prefixed_place_id_def)
qed

subsection \<open>C4: optional parameters that are left out\<close>

text \<open>
  Claim C4. The \<^verbatim>\<open>params\<close> of the request of \<^verbatim>\<open>search_places_under_location\<close> (in both
  modules) always hold \<^verbatim>\<open>name\<close>, \<^verbatim>\<open>accurate\<close>, \<^verbatim>\<open>start\<close> and \<^verbatim>\<open>list\<close>, and hold \<^verbatim>\<open>startTime\<close>
  (\<^verbatim>\<open>endTime\<close>) exactly when the argument is not \<^verbatim>\<open>None\<close>. Those of
  \<^verbatim>\<open>search_historical_places\<close> always hold \<^verbatim>\<open>fmt\<close> = \<^verbatim>\<open>json\<close> and \<^verbatim>\<open>n\<close>, and hold \<^verbatim>\<open>yr\<close>, \<^verbatim>\<open>ftyp\<close>,
  \<^verbatim>\<open>p\<close> exactly when \<^verbatim>\<open>year\<close>, \<^verbatim>\<open>feature_type\<close>, \<^verbatim>\<open>parent\<close> are given. The URL is the fixed
  endpoint and there is no body, so an argument left out appears nowhere in the request.
\<close>

theorem param_omission:
  "snd (cbdb_addr_search_places_under_location up name accurate startTime endTime start
          list_length) =
     [\<lparr>verb = GET, url = ''https://input.cbdb.fas.harvard.edu/api/place_list'',
       params = Some ([(''name'', JStr name), (''accurate'', JInt accurate),
                       (''start'', JInt start), (''list'', JInt list_length)]
                      @ (case startTime of None \<Rightarrow> [] | Some t \<Rightarrow> [(''startTime'', JInt t)])
                      @ (case endTime of None \<Rightarrow> [] | Some t \<Rightarrow> [(''endTime'', JInt t)])),
       body = None\<rparr>]
   \<and> snd (cbdb_addr_person_search_places_under_location up name accurate startTime endTime start
          list_length) =
     snd (cbdb_addr_search_places_under_location up name accurate startTime endTime start
          list_length)
   \<and> set (sent_keys (snd (cbdb_addr_search_places_under_location up name accurate startTime
          endTime start list_length))) =
     {''name'', ''accurate'', ''start'', ''list''}
       \<union> (if startTime = None then {} else {''startTime''})
       \<union> (if endTime = None then {} else {''endTime''})
   \<and> snd (search_historical_places up name year feature_type parent start list_length) =
     [\<lparr>verb = GET, url = ''http://tgaz.fudan.edu.cn/tgaz/placename'',
       params = Some ([(''fmt'', JStr ''json''), (''n'', JStr name)]
                      @ (case year of None \<Rightarrow> [] | Some y \<Rightarrow> [(''yr'', JInt y)])
                      @ (case feature_type of None \<Rightarrow> [] | Some f \<Rightarrow> [(''ftyp'', JStr f)])
                      @ (case parent of None \<Rightarrow> [] | Some p \<Rightarrow> [(''p'', JStr p)])),
       body = None\<rparr>]
   \<and> set (sent_keys (snd (search_historical_places up name year feature_type parent start
          list_length))) =
     {''fmt'', ''n''}
       \<union> (if year = None then {} else {''yr''})
       \<union> (if feature_type = None then {} else {''ftyp''})
       \<union> (if parent = None then {} else {''p''})"
proof -
  have a: "set (sent_keys (snd (cbdb_addr_search_places_under_location up name accurate
          startTime endTime start list_length))) =
     {''name'', ''accurate'', ''start'', ''list''}
       \<union> (if startTime = None then {} else {''startTime''})
       \<union> (if endTime = None then {} else {''endTime''})"
    unfolding location_search_sent sent_keys_def
    by (cases startTime; cases endTime) auto
  have b: "set (sent_keys (snd (search_historical_places up name year feature_type parent start
          list_length))) =
     {''fmt'', ''n''}
       \<union> (if year = None then {} else {''yr''})
       \<union> (if feature_type = None then {} else {''ftyp''})
       \<union> (if parent = None then {} else {''p''})"
    unfolding gazetteer_search_sent sent_keys_def
    by (cases year; cases feature_type; cases parent) auto
  show ?thesis
    using a b
    by (simp only: location_search_sent location_search_person_sent gazetteer_search_sent)
qed

subsection \<open>C5: the payload of the place-person query\<close>

text \<open>The integers \<^verbatim>\<open>json.dumps\<close> can write, and the text of the payload.\<close>

lemma py_str_within: "within_limit i \<Longrightarrow> py_str i = Inr (str_int i)"
  by (simp add: py_str_def within_limit_def)

lemma py_str_beyond:
  "\<not> within_limit i \<Longrightarrow> \<exists>e. py_str i = Inl e"
  by (simp add: py_str_def within_limit_def)

lemma small_within: "\<bar>i\<bar> < 10000 \<Longrightarrow> within_limit i"
proof -
  assume "\<bar>i\<bar> < 10000"
  moreover have "(10::int) ^ 4 \<le> 10 ^ max_str_digits"
    unfolding max_str_digits_def by (rule power_increasing) simp_all
  ultimately show ?thesis
    by (simp add: within_limit_def)
qed

lemma power_beyond: "\<not> within_limit (10 ^ max_str_digits)"
  unfolding within_limit_def by simp

lemma dumps_items_ints:
  "list_all within_limit xs \<Longrightarrow> dumps_items (map JInt xs) = Inr (map str_int xs)"
  by (induction xs) (simp_all add: py_str_within)

lemma dumps_items_strs: "dumps_items (map JStr ss) = Inr (map encode_basestring_ascii ss)"
  by (induction ss) simp_all

lemma dumps_opt_int:
  "opt_within_limit x \<Longrightarrow>
   json_dumps (opt_int x) = Inr (case x of None \<Rightarrow> ''null'' | Some i \<Rightarrow> str_int i)"
  by (cases x) (simp_all add: opt_int_def opt_within_limit_def py_str_within)

lemma dumps_opt_str:
  "json_dumps (opt_str x) =
     Inr (case x of None \<Rightarrow> ''null'' | Some s \<Rightarrow> encode_basestring_ascii s)"
  by (simp add: opt_str_def split: option.split)

lemma encode_keys:
  "encode_basestring_ascii ''peoplePlace'' = [CHR 0x22] @ ''peoplePlace'' @ [CHR 0x22]"
  "encode_basestring_ascii ''placeType'' = [CHR 0x22] @ ''placeType'' @ [CHR 0x22]"
  "encode_basestring_ascii ''useDate'' = [CHR 0x22] @ ''useDate'' @ [CHR 0x22]"
  "encode_basestring_ascii ''dateType'' = [CHR 0x22] @ ''dateType'' @ [CHR 0x22]"
  "encode_basestring_ascii ''dateStartTime'' = [CHR 0x22] @ ''dateStartTime'' @ [CHR 0x22]"
  "encode_basestring_ascii ''dateEndTime'' = [CHR 0x22] @ ''dateEndTime'' @ [CHR 0x22]"
  "encode_basestring_ascii ''dynStart'' = [CHR 0x22] @ ''dynStart'' @ [CHR 0x22]"
  "encode_basestring_ascii ''dynEnd'' = [CHR 0x22] @ ''dynEnd'' @ [CHR 0x22]"
  "encode_basestring_ascii ''useXy'' = [CHR 0x22] @ ''useXy'' @ [CHR 0x22]"
  "encode_basestring_ascii ''start'' = [CHR 0x22] @ ''start'' @ [CHR 0x22]"
  "encode_basestring_ascii ''list'' = [CHR 0x22] @ ''list'' @ [CHR 0x22]"
  by code_simp+

lemma payload_text:
  assumes "list_all within_limit people_place"
    and "within_limit use_date" and "opt_within_limit date_start_time"
    and "opt_within_limit date_end_time" and "opt_within_limit dyn_start"
    and "opt_within_limit dyn_end" and "within_limit use_xy" and "within_limit start"
    and "within_limit list_length"
  shows "json_dumps (payload people_place place_type use_date date_type date_start_time
                 date_end_time dyn_start dyn_end use_xy start list_length) =
   Inr (''{'' @ str_join '', ''
     [json_member ''peoplePlace'' (''['' @ str_join '', '' (map str_int people_place) @ '']''),
      json_member ''placeType''
        (''['' @ str_join '', '' (map encode_basestring_ascii place_type) @ '']''),
      json_member ''useDate'' (str_int use_date),
      json_member ''dateType''
        (case date_type of None \<Rightarrow> ''null'' | Some s \<Rightarrow> encode_basestring_ascii s),
      json_member ''dateStartTime''
        (case date_start_time of None \<Rightarrow> ''null'' | Some i \<Rightarrow> str_int i),
      json_member ''dateEndTime''
        (case date_end_time of None \<Rightarrow> ''null'' | Some i \<Rightarrow> str_int i),
      json_member ''dynStart'' (case dyn_start of None \<Rightarrow> ''null'' | Some i \<Rightarrow> str_int i),
      json_member ''dynEnd'' (case dyn_end of None \<Rightarrow> ''null'' | Some i \<Rightarrow> str_int i),
      json_member ''useXy'' (str_int use_xy),
      json_member ''start'' (str_int start),
      json_member ''list'' (str_int list_length)] @ ''}'')"
  using assms
  by (simp add: payload_def encode_keys dumps_items_ints dumps_items_strs dumps_opt_int
      dumps_opt_str py_str_within json_member_def)

lemma payload_fields:
  "payload people_place place_type use_date date_type date_start_time date_end_time
          dyn_start dyn_end use_xy start list_length =
     JObj [(''peoplePlace'', JList (map JInt people_place)),
           (''placeType'', JList (map JStr place_type)),
           (''useDate'', JInt use_date),
           (''dateType'', case date_type of None \<Rightarrow> JNull | Some s \<Rightarrow> JStr s),
           (''dateStartTime'', case date_start_time of None \<Rightarrow> JNull | Some i \<Rightarrow> JInt i),
           (''dateEndTime'', case date_end_time of None \<Rightarrow> JNull | Some i \<Rightarrow> JInt i),
           (''dynStart'', case dyn_start of None \<Rightarrow> JNull | Some i \<Rightarrow> JInt i),
           (''dynEnd'', case dyn_end of None \<Rightarrow> JNull | Some i \<Rightarrow> JInt i),
           (''useXy'', JInt use_xy),
           (''start'', JInt start),
           (''list'', JInt list_length)]"
  by (simp add: payload_def opt_int_def opt_str_def)

lemma example_call_dumps:
  "\<exists>t. json_dumps (payload [2928] [''individual''] 0 None None None None None 0 1 10) = Inr t"
  by (rule exI, rule payload_text) (simp_all add: small_within opt_within_limit_def)

text \<open>
  The parameters a server reads from the URL, when the JSON text holds neither \<^verbatim>\<open>#\<close> nor
  \<^verbatim>\<open>&\<close>: the one parameter \<^verbatim>\<open>RequestPayload\<close> with the text as its value.
\<close>

lemma split_first_absent: "c \<notin> set xs \<Longrightarrow> split_first c xs = (xs, None)"
  by (induction xs) auto

lemma split_first_present:
  "c \<notin> set xs \<Longrightarrow> split_first c (xs @ c # ys) = (xs, Some ys)"
  by (induction xs) auto

lemma split_all_absent: "c \<notin> set xs \<Longrightarrow> split_all c xs = [xs]"
  by (induction xs) auto

lemma url_query_params_single:
  assumes "CHR ''#'' \<notin> set t" and "CHR ''&'' \<notin> set t"
  shows "url_query_params
           (''https://input.cbdb.fas.harvard.edu/api/query_place?RequestPayload='' @ t) =
         [(''RequestPayload'', t)]"
proof -
  let ?base = "''https://input.cbdb.fas.harvard.edu/api/query_place''"
  let ?u = "?base @ CHR ''?'' # (''RequestPayload'' @ CHR ''='' # t)"
  have u: "''https://input.cbdb.fas.harvard.edu/api/query_place?RequestPayload='' @ t = ?u"
    by simp
  have "CHR ''#'' \<notin> set ?u"
    using assms(1) by simp
  from split_first_absent [OF this] have a: "fst (split_first (CHR ''#'') ?u) = ?u"
    by (rule arg_cong [where f = fst, THEN trans]) (rule fst_conv)
  have "CHR ''?'' \<notin> set ?base"
    by simp
  from split_first_present [OF this]
  have b: "snd (split_first (CHR ''?'') ?u) = Some (''RequestPayload'' @ CHR ''='' # t)"
    by (rule arg_cong [where f = snd, THEN trans]) (rule snd_conv)
  have "CHR ''&'' \<notin> set (''RequestPayload'' @ CHR ''='' # t)"
    using assms(2) by simp
  then have c: "split_all (CHR ''&'') (''RequestPayload'' @ CHR ''='' # t) =
      [''RequestPayload'' @ CHR ''='' # t]"
    by (rule split_all_absent)
  have "url_query_params ?u =
      map (\<lambda>p. case split_first (CHR ''='') p of
                 (name, None) \<Rightarrow> (name, [])
               | (name, Some v) \<Rightarrow> (name, v))
        (filter (\<lambda>p. p \<noteq> []) (split_all (CHR ''&'') (''RequestPayload'' @ CHR ''='' # t)))"
    by (simp only: url_query_params_def a b option.case)
  also have "\<dots> = [(''RequestPayload'', t)]"
    unfolding c by simp
  finally show ?thesis
    unfolding u .
qed

text \<open>
  Two calls at which the request is not what the comments of the code describe: a place
  type that holds \<^verbatim>\<open>&\<close> and \<^verbatim>\<open>#\<close>, and a place number beyond the digit limit.
\<close>

lemma oversized_raises:
  "raised (query_people_by_place up [10 ^ max_str_digits] [] 0 None None None None None 0 1 50)
   \<and> snd (query_people_by_place up [10 ^ max_str_digits] [] 0 None None None None None
          0 1 50) = []"
proof -
  have "\<exists>e. json_dumps (payload [10 ^ max_str_digits] [] 0 None None None None None 0 1 50) =
      Inl e"
    by (simp add: payload_def py_str_def)
  then obtain e where
    "json_dumps (payload [10 ^ max_str_digits] [] 0 None None None None None 0 1 50) = Inl e"
    by (elim exE)
  from people_by_place_raises [OF this] show ?thesis
    by (simp add: raised_def)
qed

lemma split_text:
  "json_dumps (payload [1] [''a&c=d#e''] 0 None None None None None 0 1 50) =
     Inr (''{'' @ str_join '', ''
       [json_member ''peoplePlace'' ''[1]'',
        json_member ''placeType'' (''['' @ [CHR 0x22] @ ''a&c=d#e'' @ [CHR 0x22] @ '']''),
        json_member ''useDate'' ''0'',
        json_member ''dateType'' ''null'',
        json_member ''dateStartTime'' ''null'',
        json_member ''dateEndTime'' ''null'',
        json_member ''dynStart'' ''null'',
        json_member ''dynEnd'' ''null'',
        json_member ''useXy'' ''0'',
        json_member ''start'' ''1'',
        json_member ''list'' ''50''] @ ''}'')"
proof -
  have enc: "encode_basestring_ascii ''a&c=d#e'' = [CHR 0x22] @ ''a&c=d#e'' @ [CHR 0x22]"
    by code_simp
  have digits: "str_int 0 = ''0''" "str_int 1 = ''1''" "str_int 50 = ''50''"
    by (simp_all add: str_int_def str_nat.simps digit_char_def)
  have "json_dumps (payload [1] [''a&c=d#e''] 0 None None None None None 0 1 50) =
     Inr (''{'' @ str_join '', ''
       [json_member ''peoplePlace'' (''['' @ str_join '', '' (map str_int [1]) @ '']''),
        json_member ''placeType''
          (''['' @ str_join '', '' (map encode_basestring_ascii [''a&c=d#e'']) @ '']''),
        json_member ''useDate'' (str_int 0),
        json_member ''dateType''
          (case None of None \<Rightarrow> ''null'' | Some s \<Rightarrow> encode_basestring_ascii s),
        json_member ''dateStartTime'' (case None of None \<Rightarrow> ''null'' | Some i \<Rightarrow> str_int i),
        json_member ''dateEndTime'' (case None of None \<Rightarrow> ''null'' | Some i \<Rightarrow> str_int i),
        json_member ''dynStart'' (case None of None \<Rightarrow> ''null'' | Some i \<Rightarrow> str_int i),
        json_member ''dynEnd'' (case None of None \<Rightarrow> ''null'' | Some i \<Rightarrow> str_int i),
        json_member ''useXy'' (str_int 0),
        json_member ''start'' (str_int 1),
        json_member ''list'' (str_int 50)] @ ''}'')"
    by (rule payload_text) (simp_all add: small_within opt_within_limit_def)
  also have "\<dots> = Inr (''{'' @ str_join '', ''
       [json_member ''peoplePlace'' ''[1]'',
        json_member ''placeType'' (''['' @ [CHR 0x22] @ ''a&c=d#e'' @ [CHR 0x22] @ '']''),
        json_member ''useDate'' ''0'',
        json_member ''dateType'' ''null'',
        json_member ''dateStartTime'' ''null'',
        json_member ''dateEndTime'' ''null'',
        json_member ''dynStart'' ''null'',
        json_member ''dynEnd'' ''null'',
        json_member ''useXy'' ''0'',
        json_member ''start'' ''1'',
        json_member ''list'' ''50''] @ ''}'')"
    by (simp add: enc digits)
  finally show ?thesis .
qed

text \<open>
  Claim C5 says that for every call \<^verbatim>\<open>query_people_by_place\<close> serialises the payload of
  eleven fields (\<^verbatim>\<open>null\<close> for each optional argument left out) and transmits that text as
  the single query parameter \<^verbatim>\<open>RequestPayload\<close> of a \<^verbatim>\<open>GET\<close> request. The code appends the
  text to the URL without escaping it. For the place type \<^verbatim>\<open>a&c=d#e\<close> the payload has its
  eleven fields, but the URL carries two parameters, \<^verbatim>\<open>RequestPayload\<close> with a text cut off
  inside the place type and \<^verbatim>\<open>c\<close>, and the rest is a fragment that is never sent. For a
  place number of 4301 digits \<^verbatim>\<open>json.dumps\<close> raises before the \<^verbatim>\<open>try\<close> block: the exception
  leaves the function and nothing is sent.
\<close>

theorem request_payload_split:
  "json_dumps (payload [1] [''a&c=d#e''] 0 None None None None None 0 1 50) =
     Inr (''{'' @ str_join '', ''
       [json_member ''peoplePlace'' ''[1]'',
        json_member ''placeType'' (''['' @ [CHR 0x22] @ ''a&c=d#e'' @ [CHR 0x22] @ '']''),
        json_member ''useDate'' ''0'',
        json_member ''dateType'' ''null'',
        json_member ''dateStartTime'' ''null'',
        json_member ''dateEndTime'' ''null'',
        json_member ''dynStart'' ''null'',
        json_member ''dynEnd'' ''null'',
        json_member ''useXy'' ''0'',
        json_member ''start'' ''1'',
        json_member ''list'' ''50''] @ ''}'')
   \<and> map (\<lambda>r. url_query_params (url r))
        (snd (query_people_by_place up [1] [''a&c=d#e''] 0 None None None None None 0 1 50)) =
     [[(''RequestPayload'',
         ''{'' @ json_member ''peoplePlace'' ''[1]'' @ '', '' @
         [CHR 0x22] @ ''placeType'' @ [CHR 0x22] @ '': ['' @ [CHR 0x22] @ ''a''),
       (''c'', ''d'')]]
   \<and> raised (query_people_by_place up [10 ^ max_str_digits] [] 0 None None None None None
        0 1 50)
   \<and> snd (query_people_by_place up [10 ^ max_str_digits] [] 0 None None None None None
        0 1 50) = []"
proof -
  let ?t = "''{'' @ str_join '', ''
       [json_member ''peoplePlace'' ''[1]'',
        json_member ''placeType'' (''['' @ [CHR 0x22] @ ''a&c=d#e'' @ [CHR 0x22] @ '']''),
        json_member ''useDate'' ''0'',
        json_member ''dateType'' ''null'',
        json_member ''dateStartTime'' ''null'',
        json_member ''dateEndTime'' ''null'',
        json_member ''dynStart'' ''null'',
        json_member ''dynEnd'' ''null'',
        json_member ''useXy'' ''0'',
        json_member ''start'' ''1'',
        json_member ''list'' ''50''] @ ''}''"
  have parsed: "url_query_params
      (''https://input.cbdb.fas.harvard.edu/api/query_place?RequestPayload='' @ ?t) =
     [(''RequestPayload'',
         ''{'' @ json_member ''peoplePlace'' ''[1]'' @ '', '' @
         [CHR 0x22] @ ''placeType'' @ [CHR 0x22] @ '': ['' @ [CHR 0x22] @ ''a''),
       (''c'', ''d'')]"
    by code_simp
  have "map (\<lambda>r. url_query_params (url r))
        (snd (query_people_by_place up [1] [''a&c=d#e''] 0 None None None None None 0 1 50)) =
     [url_query_params
        (''https://input.cbdb.fas.harvard.edu/api/query_place?RequestPayload='' @ ?t)]"
    by (simp only: people_by_place_sent [OF split_text] list.map request.simps)
  with parsed split_text oversized_raises show ?thesis
    by (simp only:)
qed

subsection \<open>C7: transport failures\<close>

text \<open>
  Claim C7. When the request of a tool fails in the transport (\<^verbatim>\<open>httpx.RequestError\<close> with
  message \<open>m\<close>), the tool returns the dictionary whose only key \<^verbatim>\<open>error\<close> holds
  \<^verbatim>\<open>API request failed: \<close> followed by \<open>m\<close>; nothing is raised. This holds for the location
  search of both modules, the place-person query, the gazetteer search and the place
  details.
\<close>

theorem transport_failure:
  "(snd (cbdb_addr_search_places_under_location up name accurate startTime endTime start
           list_length) = [ra] \<and> up ra = Inl (RequestError ma) \<longrightarrow>
    fst (cbdb_addr_search_places_under_location up name accurate startTime endTime start
           list_length) = Inr (error_dict (''API request failed: '' @ ma)))
   \<and> (snd (cbdb_addr_person_search_places_under_location up name accurate startTime endTime
           start list_length) = [rb] \<and> up rb = Inl (RequestError mb) \<longrightarrow>
    fst (cbdb_addr_person_search_places_under_location up name accurate startTime endTime
           start list_length) = Inr (error_dict (''API request failed: '' @ mb)))
   \<and> (snd (query_people_by_place up people_place place_type use_date date_type date_start_time
           date_end_time dyn_start dyn_end use_xy start list_length) = [rc]
        \<and> up rc = Inl (RequestError mc) \<longrightarrow>
    fst (query_people_by_place up people_place place_type use_date date_type date_start_time
           date_end_time dyn_start dyn_end use_xy start list_length) =
      Inr (error_dict (''API request failed: '' @ mc)))
   \<and> (snd (search_historical_places up name year feature_type parent start list_length) = [rd]
        \<and> up rd = Inl (RequestError md) \<longrightarrow>
    fst (search_historical_places up name year feature_type parent start list_length) =
      Inr (error_dict (''API request failed: '' @ md)))
   \<and> (snd (get_place_details up place_id) = [re] \<and> up re = Inl (RequestError me) \<longrightarrow>
    fst (get_place_details up place_id) = Inr (error_dict (''API request failed: '' @ me)))"
proof (intro conjI impI; elim conjE)
  assume "snd (cbdb_addr_search_places_under_location up name accurate startTime endTime start
           list_length) = [ra]" "up ra = Inl (RequestError ma)"
  then show "fst (cbdb_addr_search_places_under_location up name accurate startTime endTime start
           list_length) = Inr (error_dict (''API request failed: '' @ ma))"
    by (simp only: location_search_result fetched_raised handled_two_transport)
next
  assume "snd (cbdb_addr_person_search_places_under_location up name accurate startTime endTime
           start list_length) = [rb]" "up rb = Inl (RequestError mb)"
  then show "fst (cbdb_addr_person_search_places_under_location up name accurate startTime endTime
           start list_length) = Inr (error_dict (''API request failed: '' @ mb))"
    by (simp only: location_search_person_eq location_search_result fetched_raised
        handled_two_transport)
next
  assume "snd (query_people_by_place up people_place place_type use_date date_type date_start_time
           date_end_time dyn_start dyn_end use_xy start list_length) = [rc]"
    "up rc = Inl (RequestError mc)"
  then show "fst (query_people_by_place up people_place place_type use_date date_type
           date_start_time date_end_time dyn_start dyn_end use_xy start list_length) =
      Inr (error_dict (''API request failed: '' @ mc))"
    by (simp only: people_by_place_result fetched_raised handled_two_transport)
next
  assume "snd (search_historical_places up name year feature_type parent start list_length) = [rd]"
    "up rd = Inl (RequestError md)"
  then show "fst (search_historical_places up name year feature_type parent start list_length) =
      Inr (error_dict (''API request failed: '' @ md))"
    by (simp add: gazetteer_search_result fetched_raised handled_two_transport bind_exn_def)
next
  assume "snd (get_place_details up place_id) = [re]" "up re = Inl (RequestError me)"
  then show "fst (get_place_details up place_id) =
      Inr (error_dict (''API request failed: '' @ me))"
    by (simp add: place_details_result fetched_raised handled_four_transport bind_exn_def)
qed

text \<open>The five tools against a remote side that refuses the connection.\<close>

theorem transport_failure_witness:
  "fst (cbdb_addr_search_places_under_location refusing ''Guangzhou'' 1 None None 1 10) =
     Inr (JObj [(''error'', JStr ''API request failed: All connection attempts failed'')])
   \<and> fst (cbdb_addr_person_search_places_under_location refusing ''Guangzhou'' 1 None None 1 10) =
     Inr (JObj [(''error'', JStr ''API request failed: All connection attempts failed'')])
   \<and> fst (query_people_by_place refusing [2928] [''individual''] 0 None None None None None
            0 1 10) =
     Inr (JObj [(''error'', JStr ''API request failed: All connection attempts failed'')])
   \<and> fst (search_historical_places refusing ''Guangzhou'' None None None 1 10) =
     Inr (JObj [(''error'', JStr ''API request failed: All connection attempts failed'')])
   \<and> fst (get_place_details refusing ''80547'') =
     Inr (JObj [(''error'', JStr ''API request failed: All connection attempts failed'')])"
proof -
  have refuse: "refusing r = Inl (RequestError ''All connection attempts failed'')" for r
    by (simp add: refusing_def)
  obtain t where
    t: "json_dumps (payload [2928] [''individual''] 0 None None None None None 0 1 10) = Inr t"
    using example_call_dumps by (elim exE)
  have a: "fst (cbdb_addr_search_places_under_location refusing ''Guangzhou'' 1 None None 1 10) =
      Inr (error_dict (''API request failed: '' @ ''All connection attempts failed''))"
    by (rule transport_failure [THEN conjunct1, rule_format])
      (rule conjI [OF location_search_sent refuse])
  have b: "fst (cbdb_addr_person_search_places_under_location refusing ''Guangzhou'' 1 None
               None 1 10) =
      Inr (error_dict (''API request failed: '' @ ''All connection attempts failed''))"
    by (rule transport_failure [THEN conjunct2, THEN conjunct1, rule_format])
      (rule conjI [OF location_search_person_sent refuse])
  have c: "fst (query_people_by_place refusing [2928] [''individual''] 0 None None None None
               None 0 1 10) =
      Inr (error_dict (''API request failed: '' @ ''All connection attempts failed''))"
    by (rule transport_failure [THEN conjunct2, THEN conjunct2, THEN conjunct1, rule_format])
      (rule conjI [OF people_by_place_sent [OF t] refuse])
  have d: "fst (search_historical_places refusing ''Guangzhou'' None None None 1 10) =
      Inr (error_dict (''API request failed: '' @ ''All connection attempts failed''))"
    by (rule transport_failure [THEN conjunct2, THEN conjunct2, THEN conjunct2,
          THEN conjunct1, rule_format])
      (rule conjI [OF gazetteer_search_sent refuse])
  have e: "fst (get_place_details refusing ''80547'') =
      Inr (error_dict (''API request failed: '' @ ''All connection attempts failed''))"
    by (rule transport_failure [THEN conjunct2, THEN conjunct2, THEN conjunct2,
          THEN conjunct2, rule_format])
      (rule conjI [OF get_place_details_sent refuse])
  have m: "error_dict (''API request failed: '' @ ''All connection attempts failed'') =
      JObj [(''error'', JStr ''API request failed: All connection attempts failed'')]"
    by (simp add: error_dict_def)
  from a b c d e show ?thesis
    unfolding m by (intro conjI)
qed

subsection \<open>C6: the error messages of the place details\<close>

lemma templates_distinct:
  "''API request failed: '' @ a \<noteq> ''HTTP error status: '' @ b"
  "''API request failed: '' @ a \<noteq> ''Invalid response format: '' @ b"
  "''API request failed: '' @ a \<noteq> ''An unexpected error occurred: '' @ b"
  "''HTTP error status: '' @ a \<noteq> ''Invalid response format: '' @ b"
  "''HTTP error status: '' @ a \<noteq> ''An unexpected error occurred: '' @ b"
  "''Invalid response format: '' @ a \<noteq> ''An unexpected error occurred: '' @ b"
  by simp_all

lemma str_int_404: "str_int 404 = ''404''"
  by (simp add: str_int_def str_nat.simps digit_char_def)

text \<open>
  Claim C6. \<^verbatim>\<open>get_place_details\<close> turns a transport failure, an HTTP error status, a body
  that cannot be decoded and any other exception into four different messages, no two of
  which can coincide; the message for an HTTP error status holds the status code, and a
  response with status 404 gives \<^verbatim>\<open>HTTP error status: 404\<close>.
\<close>

theorem place_detail_errors:
  "(snd (get_place_details up place_id) = [r] \<and> up r = Inl (RequestError m) \<longrightarrow>
      fst (get_place_details up place_id) =
        Inr (error_dict (''API request failed: '' @ m)))
   \<and> (snd (get_place_details up place_id) = [r] \<and> up r = Inr resp
        \<and> \<not> is_success (status_code resp) \<longrightarrow>
      fst (get_place_details up place_id) =
        Inr (error_dict (''HTTP error status: '' @ str_int (status_code resp)))
      \<and> sublist (str_int (status_code resp))
            (''HTTP error status: '' @ str_int (status_code resp)))
   \<and> (snd (get_place_details up place_id) = [r] \<and> up r = Inr resp
        \<and> status_code resp = 404 \<longrightarrow>
      fst (get_place_details up place_id) = Inr (error_dict ''HTTP error status: 404'')
      \<and> sublist ''404'' ''HTTP error status: 404'')
   \<and> (snd (get_place_details up place_id) = [r] \<and> up r = Inr resp
        \<and> is_success (status_code resp) \<and> decoded resp = Inl m \<longrightarrow>
      fst (get_place_details up place_id) =
        Inr (error_dict (''Invalid response format: '' @ m)))
   \<and> (snd (get_place_details up place_id) = [r] \<and> up r = Inl e
        \<and> \<not> is_RequestError e \<and> \<not> is_HTTPStatusError e \<and> \<not> is_ValueError e \<longrightarrow>
      fst (get_place_details up place_id) =
        Inr (error_dict (''An unexpected error occurred: '' @ str_exn e)))
   \<and> ''API request failed: '' @ a \<noteq> ''HTTP error status: '' @ b
   \<and> ''API request failed: '' @ a \<noteq> ''Invalid response format: '' @ b
   \<and> ''API request failed: '' @ a \<noteq> ''An unexpected error occurred: '' @ b
   \<and> ''HTTP error status: '' @ a \<noteq> ''Invalid response format: '' @ b
   \<and> ''HTTP error status: '' @ a \<noteq> ''An unexpected error occurred: '' @ b
   \<and> ''Invalid response format: '' @ a \<noteq> ''An unexpected error occurred: '' @ b"
proof -
  have transport: "fst (get_place_details up place_id) =
        Inr (error_dict (''API request failed: '' @ m))"
    if "snd (get_place_details up place_id) = [r]" "up r = Inl (RequestError m)"
    using that
    by (simp add: place_details_result fetched_raised handled_four_transport bind_exn_def)
  have status: "fst (get_place_details up place_id) =
        Inr (error_dict (''HTTP error status: '' @ str_int (status_code resp)))"
    if "snd (get_place_details up place_id) = [r]" "up r = Inr resp"
      "\<not> is_success (status_code resp)"
    using that
    by (simp add: place_details_result fetched_status handled_four_def bind_exn_def)
  have inside: "sublist (str_int c) (''HTTP error status: '' @ str_int c)" for c
    by (rule sublist_append_leftI)
  have status404: "fst (get_place_details up place_id) =
        Inr (error_dict ''HTTP error status: 404'') \<and> sublist ''404'' ''HTTP error status: 404''"
    if "snd (get_place_details up place_id) = [r]" "up r = Inr resp" "status_code resp = 404"
  proof -
    have "\<not> is_success (status_code resp)"
      using that(3) by (simp add: is_success_def)
    from status [OF that(1,2) this] inside [of 404] show ?thesis
      by (simp only: that(3) str_int_404) simp
  qed
  have format: "fst (get_place_details up place_id) =
        Inr (error_dict (''Invalid response format: '' @ m))"
    if "snd (get_place_details up place_id) = [r]" "up r = Inr resp"
      "is_success (status_code resp)" "decoded resp = Inl m"
    using that
    by (simp add: place_details_result fetched_undecodable handled_four_def bind_exn_def)
  have other: "fst (get_place_details up place_id) =
        Inr (error_dict (''An unexpected error occurred: '' @ str_exn e))"
    if "snd (get_place_details up place_id) = [r]" "up r = Inl e"
      "\<not> is_RequestError e" "\<not> is_HTTPStatusError e" "\<not> is_ValueError e"
    using that
    by (simp add: place_details_result fetched_raised handled_four_def bind_exn_def)
  show ?thesis
    using transport status inside status404 format other templates_distinct [of a b]
    by blast
qed

text \<open>
  The four categories at work: a refused connection, a 404, a body that is not JSON and a
  URL the client rejects.
\<close>

theorem place_detail_errors_witness:
  "fst (get_place_details refusing ''80547'') =
     Inr (JObj [(''error'', JStr ''API request failed: All connection attempts failed'')])
   \<and> fst (get_place_details not_found ''80547'') =
     Inr (JObj [(''error'', JStr ''HTTP error status: 404'')])
   \<and> sublist ''404'' ''HTTP error status: 404''
   \<and> fst (get_place_details garbled ''80547'') =
     Inr (JObj [(''error'',
       JStr ''Invalid response format: Expecting value: line 1 column 1 (char 0)'')])
   \<and> fst (get_place_details rejecting_url ''80547'') =
     Inr (JObj [(''error'', JStr
       ''An unexpected error occurred: Invalid non-printable ASCII character in URL'')])"
proof -
  let ?r = "\<lparr>verb = GET, url = ''http://tgaz.fudan.edu.cn/tgaz/placename/json/hvd_80547'',
              params = None, body = None\<rparr>"
  have sent: "snd (get_place_details up ''80547'') = [?r]" for up
    by (simp add: get_place_details_sent prefixed_place_id_def)
  have a: "fst (get_place_details refusing ''80547'') =
     Inr (error_dict (''API request failed: '' @ ''All connection attempts failed''))"
    using place_detail_errors [where up = refusing and place_id = "''80547''" and r = ?r
        and m = "''All connection attempts failed''"] sent
    by (simp add: refusing_def)
  have b: "fst (get_place_details not_found ''80547'') = Inr (error_dict ''HTTP error status: 404'')
     \<and> sublist ''404'' ''HTTP error status: 404''"
    using place_detail_errors [where up = not_found and place_id = "''80547''" and r = ?r
        and resp = "\<lparr>status_code = 404, status_text = ''Client error: 404 Not Found'',
                      decoded = Inl ''Expecting value''\<rparr>"] sent
    by (simp add: not_found_def)
  have c: "fst (get_place_details garbled ''80547'') =
     Inr (error_dict (''Invalid response format: '' @
            ''Expecting value: line 1 column 1 (char 0)''))"
    using place_detail_errors [where up = garbled and place_id = "''80547''" and r = ?r
        and resp = "\<lparr>status_code = 200, status_text = ''OK'',
                      decoded = Inl ''Expecting value: line 1 column 1 (char 0)''\<rparr>"
        and m = "''Expecting value: line 1 column 1 (char 0)''"] sent
    by (simp add: garbled_def is_success_def)
  have d: "fst (get_place_details rejecting_url ''80547'') =
     Inr (error_dict (''An unexpected error occurred: '' @
            ''Invalid non-printable ASCII character in URL''))"
    using place_detail_errors [where up = rejecting_url and place_id = "''80547''" and r = ?r
        and e = "OtherException ''Invalid non-printable ASCII character in URL''"] sent
    by (simp add: rejecting_url_def)
  show ?thesis
    using a b c d by (simp add: error_dict_def)
qed

subsection \<open>The pagination block\<close>

lemma map_nth_upto:
  "0 \<le> a \<Longrightarrow> a \<le> b \<Longrightarrow> b \<le> int (length xs) \<Longrightarrow>
   map (\<lambda>i. xs ! nat i) [a..b - 1] = take (nat (b - a)) (drop (nat a) xs)"
proof (rule nth_equalityI)
  assume h: "0 \<le> a" "a \<le> b" "b \<le> int (length xs)"
  show "length (map (\<lambda>i. xs ! nat i) [a..b - 1]) = length (take (nat (b - a)) (drop (nat a) xs))"
    using h by (simp add: min_def) linarith
  fix i assume "i < length (map (\<lambda>i. xs ! nat i) [a..b - 1])"
  then have i: "int i < b - a"
    by simp
  then have "[a..b - 1] ! i = a + int i"
    by (simp add: nth_upto)
  moreover have "nat (a + int i) = nat a + i"
    using h by linarith
  ultimately show "map (\<lambda>i. xs ! nat i) [a..b - 1] ! i = take (nat (b - a)) (drop (nat a) xs) ! i"
    using h i by (simp add: nth_upto)
qed

lemma filter_upto_all:
  "0 \<le> a \<Longrightarrow> b \<le> L \<Longrightarrow> filter (\<lambda>i. 0 \<le> i \<and> i < L) [a..b - 1] = [a..b - 1]"
  by (rule filter_True) auto

text \<open>For a start within the list and a positive page size, Python's slice is the page.\<close>

lemma py_slice_spec:
  assumes "1 \<le> s" "s \<le> int (length xs)" "1 \<le> n"
  shows "py_slice xs (s - 1) (s - 1 + n) = spec_slice xs s n"
proof -
  let ?L = "int (length xs)"
  let ?b = "min (s - 1 + n) ?L"
  have a: "slice_bound ?L (s - 1) = s - 1" and b: "slice_bound ?L (s - 1 + n) = ?b"
    using assms by (simp_all add: slice_bound_def)
  have "py_slice xs (s - 1) (s - 1 + n) = take (nat (?b - (s - 1))) (drop (nat (s - 1)) xs)"
    by (simp only: py_slice_def Let_def a b)
  also have "\<dots> = map (\<lambda>i. xs ! nat i) [s - 1..?b - 1]"
    using assms by (intro map_nth_upto [symmetric]) simp_all
  also have "\<dots> = spec_slice xs s n"
    using assms by (simp add: spec_slice_def Let_def filter_upto_all)
  finally show ?thesis .
qed

text \<open>\<^verbatim>\<open>(L + n - 1) // n\<close> is the ceiling of \<open>L / n\<close> for a positive \<open>n\<close>.\<close>

lemma total_pages_ceiling:
  fixes L n :: int
  assumes "1 \<le> n"
  shows "(L + n - 1) div n = \<lceil>real_of_int L / real_of_int n\<rceil>"
proof -
  let ?q = "L div n" and ?m = "L mod n"
  have L: "L = n * ?q + ?m"
    by simp
  have m: "0 \<le> ?m" "?m < n"
    using assms by simp_all
  have up: "- (- L div n) = (if ?m = 0 then ?q else ?q + 1)"
    using assms by (simp add: zdiv_zminus1_eq_if)
  have "(L + n - 1) div n = (if ?m = 0 then ?q else ?q + 1)"
  proof (cases "?m = 0")
    case True
    then have "L + n - 1 = n * ?q + (n - 1)"
      using L by simp
    then have "(L + n - 1) div n = ?q"
      by (rule int_div_pos_eq) (use assms in simp_all)
    with True show ?thesis by simp
  next
    case False
    have "L + n - 1 = n * (?q + 1) + (?m - 1)"
      using L by (simp add: algebra_simps)
    then have "(L + n - 1) div n = ?q + 1"
      by (rule int_div_pos_eq) (use m False in simp_all)
    with False show ?thesis by simp
  qed
  with up show ?thesis
    by (simp only: ceiling_divide_eq_div)
qed

text \<open>The block on a dictionary whose \<^verbatim>\<open>placenames\<close> is a non-empty list.\<close>

lemma paginate_results_list:
  assumes "map_of d ''placenames'' = Some (JList xs)" "xs \<noteq> []"
  shows "paginate_results (JObj d) s n =
     (let L = int (length xs);
          page = (if s \<le> L then py_slice xs (s - 1) (s - 1 + n) else []);
          k = int (length page)
      in bind_exn (py_floordiv (L + n - 1) n) (\<lambda>total_pages.
           Inr (JObj (AList.update ''pagination''
                  (JObj [(''start'', JInt s),
                         (''end'', JInt (if k > 0 then min (s + k - 1) L else s)),
                         (''total_pages'', JInt total_pages)])
                (AList.update ''count of displayed results'' (JStr (str_int k))
                (AList.update ''placenames'' (JList page) d))))))"
  using assms by (simp add: paginate_results_def bind_exn_def Let_def split: sum.split)

lemma paginate_results_skip:
  assumes "map_of d ''placenames'' = None \<or> map_of d ''placenames'' = Some (JList [])"
  shows "paginate_results (JObj d) s n = Inr (JObj d)"
  using assms by (auto simp: paginate_results_def bind_exn_def)

lemma paginate_results_spec:
  assumes "map_of d ''placenames'' = Some (JList xs)" "xs \<noteq> []" "1 \<le> s" "1 \<le> n"
  shows "paginate_results (JObj d) s n = Inr (spec_paginate d xs s n)"
proof -
  let ?L = "int (length xs)"
  have page: "(if s \<le> ?L then py_slice xs (s - 1) (s - 1 + n) else []) = spec_slice xs s n"
    using assms(3,4) by (simp add: py_slice_spec) (simp add: spec_slice_def)
  have tp: "py_floordiv (?L + n - 1) n = Inr \<lceil>real_of_int ?L / real_of_int n\<rceil>"
    using assms(4) by (simp add: py_floordiv_def total_pages_ceiling)
  show ?thesis
    unfolding paginate_results_list [OF assms(1,2)] Let_def page tp spec_paginate_def
    by (simp add: bind_exn_def)
qed

lemma paginate_results_frame:
  assumes "map_of d ''placenames'' = None
     \<or> (\<exists>xs. map_of d ''placenames'' = Some (JList xs) \<and> (xs = [] \<or> n \<noteq> 0))"
  shows "\<exists>d'. paginate_results (JObj d) s n = Inr (JObj d')
     \<and> (\<forall>k. k \<notin> {''placenames'', ''count of displayed results'', ''pagination''} \<longrightarrow>
            map_of d' k = map_of d k)"
proof (cases "\<exists>xs. map_of d ''placenames'' = Some (JList xs) \<and> xs \<noteq> []")
  case False
  with assms have "map_of d ''placenames'' = None \<or> map_of d ''placenames'' = Some (JList [])"
    by auto
  from paginate_results_skip [OF this] show ?thesis
    by simp
next
  case True
  then obtain xs where xs: "map_of d ''placenames'' = Some (JList xs)" "xs \<noteq> []"
    by blast
  with assms have n: "n \<noteq> 0"
    by auto
  show ?thesis
    unfolding paginate_results_list [OF xs] Let_def
    using n by (simp add: py_floordiv_def bind_exn_def update_conv')
qed

subsection \<open>C10: no list, or an empty one\<close>

text \<open>
  Claim C10. When the decoded body of the answer to \<^verbatim>\<open>search_historical_places\<close> is a
  dictionary without the key \<^verbatim>\<open>placenames\<close>, or with an empty list under it, the tool returns
  the body unchanged, whatever \<^verbatim>\<open>start\<close> and \<^verbatim>\<open>list_length\<close> are: no \<^verbatim>\<open>pagination\<close> is added
  and the displayed count is left as it is.
\<close>

theorem pagination_skipped:
  assumes "snd (search_historical_places up name year feature_type parent s n) = [r]"
    and "up r = Inr resp" and "is_success (status_code resp)"
    and "decoded resp = Inr (JObj d)"
    and "map_of d ''placenames'' = None \<or> map_of d ''placenames'' = Some (JList [])"
  shows "fst (search_historical_places up name year feature_type parent s n) = Inr (JObj d)"
  using gazetteer_search_decoded [OF assms(1-4)] paginate_results_skip [OF assms(5)]
  by (simp add: handled_two_def)

text \<open>An empty list with a page size of zero, and a body without the key.\<close>

theorem pagination_skipped_witness:
  "fst (search_historical_places (answering (JObj [(''system'', JStr ''CHGIS''),
          (''count of displayed results'', JStr ''0''), (''placenames'', JList [])]))
        ''Suzhou'' None None None 3 0) =
     Inr (JObj [(''system'', JStr ''CHGIS''), (''count of displayed results'', JStr ''0''),
                (''placenames'', JList [])])
   \<and> fst (search_historical_places (answering (JObj [(''system'', JStr ''CHGIS'')]))
        ''Suzhou'' None None None 1 10) =
     Inr (JObj [(''system'', JStr ''CHGIS'')])"
proof -
  let ?b = "JObj [(''system'', JStr ''CHGIS''), (''count of displayed results'', JStr ''0''),
          (''placenames'', JList [])]"
  let ?c = "JObj [(''system'', JStr ''CHGIS'')]"
  let ?r = "\<lparr>verb = GET, url = ''http://tgaz.fudan.edu.cn/tgaz/placename'',
              params = Some [(''fmt'', JStr ''json''), (''n'', JStr ''Suzhou'')], body = None\<rparr>"
  have sent: "snd (search_historical_places up ''Suzhou'' None None None s n) = [?r]" for up s n
    by (simp add: gazetteer_search_sent)
  have a: "fst (search_historical_places (answering ?b) ''Suzhou'' None None None 3 0) = Inr ?b"
    by (rule pagination_skipped [where r = ?r and resp =
          "\<lparr>status_code = 200, status_text = ''OK'', decoded = Inr ?b\<rparr>"])
      (simp_all add: sent answering_def is_success_def)
  have b: "fst (search_historical_places (answering ?c) ''Suzhou'' None None None 1 10) = Inr ?c"
    by (rule pagination_skipped [where r = ?r and resp =
          "\<lparr>status_code = 200, status_text = ''OK'', decoded = Inr ?c\<rparr>"])
      (simp_all add: sent answering_def is_success_def)
  show ?thesis
    using a b by (rule conjI)
qed

subsection \<open>C1: pagination of the gazetteer search\<close>

text \<open>
  Claim C1 says that for every list and every \<^verbatim>\<open>start\<close> and \<^verbatim>\<open>list_length\<close> the tool returns
  what \<open>spec_paginate\<close> describes. That fails for an empty list, which the tool returns
  as it is, and for a page size of zero, where the division raises and the tool returns an
  error dictionary.
\<close>

theorem pagination_counterexample:
  "fst (search_historical_places (answering (JObj [(''placenames'', JList [])]))
          ''Suzhou'' None None None 1 10) =
     Inr (JObj [(''placenames'', JList [])])
   \<and> spec_paginate [(''placenames'', JList [])] [] 1 10 =
     JObj [(''placenames'', JList []), (''count of displayed results'', JStr ''0''),
           (''pagination'', JObj [(''start'', JInt 1), (''end'', JInt 1),
                                  (''total_pages'', JInt 0)])]
   \<and> fst (search_historical_places (answering (JObj [(''placenames'', JList [])]))
          ''Suzhou'' None None None 1 10) \<noteq>
     Inr (spec_paginate [(''placenames'', JList [])] [] 1 10)
   \<and> returned_error (search_historical_places
          (answering (JObj [(''placenames'', JList [JStr ''a'', JStr ''b''])]))
          ''Suzhou'' None None None 1 0)
   \<and> fst (search_historical_places
          (answering (JObj [(''placenames'', JList [JStr ''a'', JStr ''b''])]))
          ''Suzhou'' None None None 1 0) \<noteq>
     Inr (spec_paginate [(''placenames'', JList [JStr ''a'', JStr ''b''])]
            [JStr ''a'', JStr ''b''] 1 0)"
  by code_simp

text \<open>
  Claim C1, amended: when the list is not empty, \<^verbatim>\<open>start\<close> is at least 1 and \<^verbatim>\<open>list_length\<close>
  is at least 1, \<^verbatim>\<open>search_historical_places\<close> replaces the list by the elements at the
  zero-based indices from \<open>s - 1\<close> up to \<open>min (s - 1 + n) L\<close> when \<open>s \<le> L\<close> and by the empty
  list otherwise, sets the displayed count to the length of that page as text, and adds
  the pagination object with the start, the end and the ceiling of \<open>L / n\<close>.
\<close>

theorem pagination_amended:
  assumes "snd (search_historical_places up name year feature_type parent s n) = [r]"
    and "up r = Inr resp" and "is_success (status_code resp)"
    and "decoded resp = Inr (JObj d)"
    and "map_of d ''placenames'' = Some (JList xs)"
    and "xs \<noteq> []" and "1 \<le> s" and "1 \<le> n"
  shows "fst (search_historical_places up name year feature_type parent s n) =
     Inr (spec_paginate d xs s n)"
  using gazetteer_search_decoded [OF assms(1-4)] paginate_results_spec [OF assms(5-8)]
  by (simp add: handled_two_def)

text \<open>
  The two examples of the specification: 25 items, start 11, page size 10; and 5 items,
  start 10, page size 10.
\<close>

theorem pagination_amended_witness:
  "fst (search_historical_places
          (answering (JObj [(''count of displayed results'', JStr ''25''),
                            (''placenames'', JList (map JInt [1..25]))]))
          ''Suzhou'' None None None 11 10) =
     Inr (JObj [(''count of displayed results'', JStr ''10''),
                (''placenames'', JList (map JInt [11..20])),
                (''pagination'', JObj [(''start'', JInt 11), (''end'', JInt 20),
                                       (''total_pages'', JInt 3)])])
   \<and> fst (search_historical_places
          (answering (JObj [(''placenames'', JList (map JInt [1..5]))]))
          ''Suzhou'' None None None 10 10) =
     Inr (JObj [(''placenames'', JList []),
                (''count of displayed results'', JStr ''0''),
                (''pagination'', JObj [(''start'', JInt 10), (''end'', JInt 10),
                                       (''total_pages'', JInt 1)])])"
proof -
  let ?d = "[(''count of displayed results'', JStr ''25''),
             (''placenames'', JList (map JInt [1..25]))]"
  let ?e = "[(''placenames'', JList (map JInt [1..5]))]"
  let ?r = "\<lparr>verb = GET, url = ''http://tgaz.fudan.edu.cn/tgaz/placename'',
              params = Some [(''fmt'', JStr ''json''), (''n'', JStr ''Suzhou'')], body = None\<rparr>"
  have sent: "snd (search_historical_places up ''Suzhou'' None None None s n) = [?r]" for up s n
    by (simp add: gazetteer_search_sent)
  have nonempty: "map JInt [1..25] \<noteq> []" "map JInt [1..5] \<noteq> []"
    by code_simp+
  have a: "fst (search_historical_places (answering (JObj ?d)) ''Suzhou'' None None None 11 10) =
      Inr (spec_paginate ?d (map JInt [1..25]) 11 10)"
    by (rule pagination_amended [where r = ?r and resp =
          "\<lparr>status_code = 200, status_text = ''OK'', decoded = Inr (JObj ?d)\<rparr>"])
      (simp_all add: sent answering_def is_success_def nonempty)
  have b: "fst (search_historical_places (answering (JObj ?e)) ''Suzhou'' None None None 10 10) =
      Inr (spec_paginate ?e (map JInt [1..5]) 10 10)"
    by (rule pagination_amended [where r = ?r and resp =
          "\<lparr>status_code = 200, status_text = ''OK'', decoded = Inr (JObj ?e)\<rparr>"])
      (simp_all add: sent answering_def is_success_def nonempty)
  have c: "spec_paginate ?d (map JInt [1..25]) 11 10 =
      JObj [(''count of displayed results'', JStr ''10''),
            (''placenames'', JList (map JInt [11..20])),
            (''pagination'', JObj [(''start'', JInt 11), (''end'', JInt 20),
                                   (''total_pages'', JInt 3)])]"
    by code_simp
  have d: "spec_paginate ?e (map JInt [1..5]) 10 10 =
      JObj [(''placenames'', JList []),
            (''count of displayed results'', JStr ''0''),
            (''pagination'', JObj [(''start'', JInt 10), (''end'', JInt 10),
                                   (''total_pages'', JInt 1)])]"
    by code_simp
  show ?thesis
    using a b by (simp only: c d)
qed

text \<open>
  Outside the amended claim: a start below 1 counts from the end of the list, and so does
  the end of the slice for a negative page size, where \<^verbatim>\<open>//\<close> is no ceiling either.
\<close>

lemma negative_start_example:
  "fst (search_historical_places
          (answering (JObj [(''placenames'', JList [JStr ''a'', JStr ''b'', JStr ''c''])]))
          ''Suzhou'' None None None (- 1) 1) =
     Inr (JObj [(''placenames'', JList [JStr ''b'']),
                (''count of displayed results'', JStr ''1''),
                (''pagination'', JObj [(''start'', JInt (- 1)), (''end'', JInt (- 1)),
                                       (''total_pages'', JInt 3)])])"
  by code_simp

lemma negative_size_example:
  "fst (search_historical_places
          (answering (JObj [(''placenames'', JList [JStr ''a'', JStr ''b'', JStr ''c''])]))
          ''Suzhou'' None None None 1 (- 1)) =
     Inr (JObj [(''placenames'', JList [JStr ''a'', JStr ''b'']),
                (''count of displayed results'', JStr ''2''),
                (''pagination'', JObj [(''start'', JInt 1), (''end'', JInt 2),
                                       (''total_pages'', JInt (- 1))])])"
  by code_simp

subsection \<open>C8: successful answers are passed through\<close>

text \<open>
  Claim C8 says that for every successful answer the returned value is the decoded body,
  field for field, but for the three fields the pagination sets. That fails for
  \<^verbatim>\<open>get_place_details\<close> when the body is not a container (the membership test on
  \<^verbatim>\<open>source note\<close> raises), and for \<^verbatim>\<open>search_historical_places\<close> when the pagination
  raises: an error dictionary is returned and the fields of the body are gone.
\<close>

theorem pass_through_counterexample:
  "fst (get_place_details (answering JNull) ''hvd_80547'') \<noteq> Inr JNull
   \<and> returned_error (get_place_details (answering JNull) ''hvd_80547'')
   \<and> returned_error (search_historical_places
        (answering (JObj [(''system'', JStr ''CHGIS''),
                          (''placenames'', JList [JStr ''a'', JStr ''b''])]))
        ''Suzhou'' None None None 1 0)
   \<and> returned_field (search_historical_places
        (answering (JObj [(''system'', JStr ''CHGIS''),
                          (''placenames'', JList [JStr ''a'', JStr ''b''])]))
        ''Suzhou'' None None None 1 0) ''system'' = None"
  by code_simp

text \<open>
  Claim C8, amended: for a successful answer, the location search (of both modules) and
  the place-person query return the decoded body unchanged; \<^verbatim>\<open>get_place_details\<close> returns
  the decoded body unchanged when it is a dictionary, the \<^verbatim>\<open>source note\<close> included, whatever
  text it holds; and \<^verbatim>\<open>search_historical_places\<close>, when the body is a dictionary whose
  \<^verbatim>\<open>placenames\<close> is absent, or a list that is empty or comes with a \<^verbatim>\<open>list_length\<close> other than
  zero, returns a dictionary that agrees with the body on every key other than
  \<^verbatim>\<open>placenames\<close>, \<^verbatim>\<open>count of displayed results\<close> and \<^verbatim>\<open>pagination\<close>.
\<close>

theorem pass_through_amended:
  "(snd (cbdb_addr_search_places_under_location up name accurate startTime endTime start
           list_length) = [ra]
      \<and> up ra = Inr resp \<and> is_success (status_code resp) \<and> decoded resp = Inr b \<longrightarrow>
    fst (cbdb_addr_search_places_under_location up name accurate startTime endTime start
           list_length) = Inr b)
   \<and> (snd (cbdb_addr_person_search_places_under_location up name accurate startTime endTime
           start list_length) = [rb]
      \<and> up rb = Inr resp \<and> is_success (status_code resp) \<and> decoded resp = Inr b \<longrightarrow>
    fst (cbdb_addr_person_search_places_under_location up name accurate startTime endTime
           start list_length) = Inr b)
   \<and> (snd (query_people_by_place up people_place place_type use_date date_type date_start_time
           date_end_time dyn_start dyn_end use_xy start list_length) = [rc]
      \<and> up rc = Inr resp \<and> is_success (status_code resp) \<and> decoded resp = Inr b \<longrightarrow>
    fst (query_people_by_place up people_place place_type use_date date_type date_start_time
           date_end_time dyn_start dyn_end use_xy start list_length) = Inr b)
   \<and> (snd (get_place_details up place_id) = [rd]
      \<and> up rd = Inr resp \<and> is_success (status_code resp) \<and> decoded resp = Inr (JObj d) \<longrightarrow>
    fst (get_place_details up place_id) = Inr (JObj d))
   \<and> (snd (search_historical_places up name year feature_type parent start list_length) = [re]
      \<and> up re = Inr resp \<and> is_success (status_code resp) \<and> decoded resp = Inr (JObj d)
      \<and> (map_of d ''placenames'' = None
         \<or> (\<exists>xs. map_of d ''placenames'' = Some (JList xs) \<and> (xs = [] \<or> list_length \<noteq> 0)))
      \<longrightarrow>
    (\<exists>d'. fst (search_historical_places up name year feature_type parent start list_length) =
            Inr (JObj d')
         \<and> (\<forall>k. k \<notin> {''placenames'', ''count of displayed results'', ''pagination''} \<longrightarrow>
                map_of d' k = map_of d k)))"
proof (intro conjI impI; elim conjE)
  assume "snd (cbdb_addr_search_places_under_location up name accurate startTime endTime start
           list_length) = [ra]"
    "up ra = Inr resp" "is_success (status_code resp)" "decoded resp = Inr b"
  then show "fst (cbdb_addr_search_places_under_location up name accurate startTime endTime
           start list_length) = Inr b"
    by (simp add: location_search_result fetched_decoded handled_two_def)
next
  assume "snd (cbdb_addr_person_search_places_under_location up name accurate startTime endTime
           start list_length) = [rb]"
    "up rb = Inr resp" "is_success (status_code resp)" "decoded resp = Inr b"
  then show "fst (cbdb_addr_person_search_places_under_location up name accurate startTime
           endTime start list_length) = Inr b"
    by (simp add: location_search_person_eq location_search_result fetched_decoded
        handled_two_def)
next
  assume "snd (query_people_by_place up people_place place_type use_date date_type
           date_start_time date_end_time dyn_start dyn_end use_xy start list_length) = [rc]"
    "up rc = Inr resp" "is_success (status_code resp)" "decoded resp = Inr b"
  then show "fst (query_people_by_place up people_place place_type use_date date_type
           date_start_time date_end_time dyn_start dyn_end use_xy start list_length) = Inr b"
    by (simp add: people_by_place_result fetched_decoded handled_two_def)
next
  assume "snd (get_place_details up place_id) = [rd]"
    "up rd = Inr resp" "is_success (status_code resp)" "decoded resp = Inr (JObj d)"
  then show "fst (get_place_details up place_id) = Inr (JObj d)"
    by (simp add: place_details_result fetched_decoded handled_four_def bind_exn_def
        check_source_note_dict)
next
  assume sent: "snd (search_historical_places up name year feature_type parent start
           list_length) = [re]"
    and resp: "up re = Inr resp" "is_success (status_code resp)" "decoded resp = Inr (JObj d)"
    and names: "map_of d ''placenames'' = None
         \<or> (\<exists>xs. map_of d ''placenames'' = Some (JList xs) \<and> (xs = [] \<or> list_length \<noteq> 0))"
  from paginate_results_frame [OF names] obtain d' where
    d': "paginate_results (JObj d) start list_length = Inr (JObj d')"
      "\<forall>k. k \<notin> {''placenames'', ''count of displayed results'', ''pagination''} \<longrightarrow>
            map_of d' k = map_of d k"
    by blast
  from gazetteer_search_decoded [OF sent resp] d'(1)
  have "fst (search_historical_places up name year feature_type parent start list_length) =
      Inr (JObj d')"
    by (simp add: handled_two_def)
  with d'(2) show "\<exists>d'. fst (search_historical_places up name year feature_type parent start
            list_length) = Inr (JObj d')
         \<and> (\<forall>k. k \<notin> {''placenames'', ''count of displayed results'', ''pagination''} \<longrightarrow>
                map_of d' k = map_of d k)"
    by blast
qed

text \<open>
  Bodies passed through: an empty listing, a place whose source note is a broken JSON
  fragment, and a gazetteer answer whose \<^verbatim>\<open>system\<close> field survives the pagination.
\<close>

theorem pass_through_amended_witness:
  "fst (cbdb_addr_search_places_under_location
          (answering (JObj [(''total'', JInt 0), (''data'', JList [])]))
          ''Guangzhou'' 1 None None 1 10) =
     Inr (JObj [(''total'', JInt 0), (''data'', JList [])])
   \<and> fst (cbdb_addr_person_search_places_under_location
          (answering (JObj [(''total'', JInt 0), (''data'', JList [])]))
          ''Guangzhou'' 1 None None 1 10) =
     Inr (JObj [(''total'', JInt 0), (''data'', JList [])])
   \<and> fst (query_people_by_place
          (answering (JObj [(''total'', JInt 0), (''data'', JList [])]))
          [2928] [''individual''] 0 None None None None None 0 1 10) =
     Inr (JObj [(''total'', JInt 0), (''data'', JList [])])
   \<and> fst (get_place_details
          (answering (JObj [(''sys_id'', JStr ''hvd_80547''),
                            (''source note'', JStr ''{CHGIS: [unterminated'')]))
          ''hvd_80547'') =
     Inr (JObj [(''sys_id'', JStr ''hvd_80547''),
                (''source note'', JStr ''{CHGIS: [unterminated'')])
   \<and> returned_field (search_historical_places
          (answering (JObj [(''system'', JStr ''CHGIS''),
                            (''placenames'', JList [JStr ''a'', JStr ''b''])]))
          ''Guangzhou'' None None None 1 10) ''system'' = Some (JStr ''CHGIS'')"
proof -
  let ?b = "JObj [(''total'', JInt 0), (''data'', JList [])]"
  let ?note = "[(''sys_id'', JStr ''hvd_80547''),
                (''source note'', JStr ''{CHGIS: [unterminated'')]"
  let ?found = "[(''system'', JStr ''CHGIS''), (''placenames'', JList [JStr ''a'', JStr ''b''])]"
  let ?search = "\<lambda>v. search_historical_places (answering v) ''Guangzhou'' None None None 1 10"
  have answer: "answering v r = Inr \<lparr>status_code = 200, status_text = ''OK'', decoded = Inr v\<rparr>
      \<and> is_success (status_code \<lparr>status_code = 200, status_text = ''OK'', decoded = Inr v\<rparr>)
      \<and> decoded \<lparr>status_code = 200, status_text = ''OK'', decoded = Inr v\<rparr> = Inr v" for v r
    by (simp add: answering_def is_success_def)
  obtain t where
    t: "json_dumps (payload [2928] [''individual''] 0 None None None None None 0 1 10) = Inr t"
    using example_call_dumps by (elim exE)
  have a: "fst (cbdb_addr_search_places_under_location (answering ?b)
               ''Guangzhou'' 1 None None 1 10) = Inr ?b"
    by (rule pass_through_amended [THEN conjunct1, rule_format])
      (rule conjI [OF location_search_sent answer])
  have b: "fst (cbdb_addr_person_search_places_under_location (answering ?b)
               ''Guangzhou'' 1 None None 1 10) = Inr ?b"
    by (rule pass_through_amended [THEN conjunct2, THEN conjunct1, rule_format])
      (rule conjI [OF location_search_person_sent answer])
  have c: "fst (query_people_by_place (answering ?b) [2928] [''individual''] 0 None None None
               None None 0 1 10) = Inr ?b"
    by (rule pass_through_amended [THEN conjunct2, THEN conjunct2, THEN conjunct1, rule_format])
      (rule conjI [OF people_by_place_sent [OF t] answer])
  have d: "fst (get_place_details (answering (JObj ?note)) ''hvd_80547'') = Inr (JObj ?note)"
    by (rule pass_through_amended [THEN conjunct2, THEN conjunct2, THEN conjunct2,
          THEN conjunct1, rule_format])
      (rule conjI [OF get_place_details_sent answer])
  have names: "map_of ?found ''placenames'' = None
      \<or> (\<exists>xs. map_of ?found ''placenames'' = Some (JList xs) \<and> (xs = [] \<or> (10::int) \<noteq> 0))"
    by simp
  have "\<exists>d'. fst (?search (JObj ?found)) = Inr (JObj d')
      \<and> (\<forall>k. k \<notin> {''placenames'', ''count of displayed results'', ''pagination''} \<longrightarrow>
            map_of d' k = map_of ?found k)"
    by (rule pass_through_amended [THEN conjunct2, THEN conjunct2, THEN conjunct2,
          THEN conjunct2, rule_format])
      (rule conjI [OF gazetteer_search_sent conjI [OF answer [THEN conjunct1]
          conjI [OF answer [THEN conjunct2, THEN conjunct1]
            conjI [OF answer [THEN conjunct2, THEN conjunct2] names]]]])
  then obtain d' where d': "fst (?search (JObj ?found)) = Inr (JObj d')"
    and frame: "\<forall>k. k \<notin> {''placenames'', ''count of displayed results'', ''pagination''} \<longrightarrow>
            map_of d' k = map_of ?found k"
    by (elim exE conjE)
  have "''system'' \<notin> {''placenames'', ''count of displayed results'', ''pagination''}"
    by simp
  with frame [rule_format, of "''system''"]
  have "map_of d' ''system'' = map_of ?found ''system''" .
  then have "map_of d' ''system'' = Some (JStr ''CHGIS'')"
    by simp
  with d' have e: "returned_field (?search (JObj ?found)) ''system'' = Some (JStr ''CHGIS'')"
    by (simp add: returned_field_def)
  from a b c d e show ?thesis
    by (intro conjI)
qed

subsection \<open>C2: every tool returns a value of one of two shapes\<close>

















end
